theory Spec2Isabelle
  imports Main "HOL-Library.Word"
begin

section \<open>Per-thread perf event counters (src/Common/ThreadProfileEvents.cpp)\<close>

text \<open>
  The embedding follows \<^verbatim>\<open>ThreadProfileEvents.cpp\<close>. The thread-local variables, the two
  process-wide atomic flags and the \<^verbatim>\<open>raw_event_values\<close> arrays of the sessions are the
  fields of one record that every operation takes and returns. The operating system is a
  record of functions (what each call returns); every call made is appended to a trace, and
  every line handed to the logger is appended to a list.

  The header \<^verbatim>\<open>ThreadProfileEvents.h\<close> is not among the sources: the members of the two
  classes are taken from their uses in the \<^verbatim>\<open>.cpp\<close> file (two arrays of
  \<^verbatim>\<open>NUMBER_OF_RAW_EVENTS\<close> elements, the static catalog, the thread-local variables and the
  atomic flags that lines 67 to 72 define).
\<close>

subsection \<open>Data\<close>

type_synonym UInt64 = "64 word"

text \<open>The members of \<^verbatim>\<open>ProfileEvents::Event\<close> that the file names.\<close>

datatype Event =
    PE_PERF_COUNT_HW_CPU_CYCLES
  | PE_PERF_COUNT_HW_INSTRUCTIONS
  | PE_PERF_COUNT_HW_CACHE_REFERENCES
  | PE_PERF_COUNT_HW_CACHE_MISSES
  | PE_PERF_COUNT_HW_BRANCH_INSTRUCTIONS
  | PE_PERF_COUNT_HW_BRANCH_MISSES
  | PE_PERF_COUNT_HW_BUS_CYCLES
  | PE_PERF_COUNT_HW_STALLED_CYCLES_FRONTEND
  | PE_PERF_COUNT_HW_STALLED_CYCLES_BACKEND
  | PE_PERF_COUNT_HW_REF_CPU_CYCLES
  | PE_PERF_COUNT_SW_TASK_CLOCK
  | PE_PERF_COUNT_SW_PAGE_FAULTS
  | PE_PERF_COUNT_SW_CONTEXT_SWITCHES
  | PE_PERF_COUNT_SW_CPU_MIGRATIONS
  | PE_PERF_COUNT_SW_PAGE_FAULTS_MIN
  | PE_PERF_COUNT_SW_PAGE_FAULTS_MAJ
  | PE_PERF_COUNT_SW_ALIGNMENT_FAULTS
  | PE_PERF_COUNT_SW_EMULATION_FAULTS
  | PE_PERF_CUSTOM_INSTRUCTIONS_PER_CPU_CYCLE_SCALED
  | PE_PERF_CUSTOM_INSTRUCTIONS_PER_CPU_CYCLE

record PerfEventInfo =
  event_type :: int
  event_config :: int
  profile_event :: Event

text \<open>
  The enumerators of \<^verbatim>\<open>linux/perf_event.h\<close> that the file uses, with the values the kernel
  header gives them.
\<close>

named_theorems perf_consts \<open>values of the perf_event.h enumerators\<close>

definition PERF_TYPE_HARDWARE :: int where [perf_consts]: "PERF_TYPE_HARDWARE = 0"
definition PERF_TYPE_SOFTWARE :: int where [perf_consts]: "PERF_TYPE_SOFTWARE = 1"

definition PERF_COUNT_HW_CPU_CYCLES :: int where [perf_consts]: "PERF_COUNT_HW_CPU_CYCLES = 0"
definition PERF_COUNT_HW_INSTRUCTIONS :: int where [perf_consts]: "PERF_COUNT_HW_INSTRUCTIONS = 1"
definition PERF_COUNT_HW_CACHE_REFERENCES :: int where [perf_consts]: "PERF_COUNT_HW_CACHE_REFERENCES = 2"
definition PERF_COUNT_HW_CACHE_MISSES :: int where [perf_consts]: "PERF_COUNT_HW_CACHE_MISSES = 3"
definition PERF_COUNT_HW_BRANCH_INSTRUCTIONS :: int where [perf_consts]: "PERF_COUNT_HW_BRANCH_INSTRUCTIONS = 4"
definition PERF_COUNT_HW_BRANCH_MISSES :: int where [perf_consts]: "PERF_COUNT_HW_BRANCH_MISSES = 5"
definition PERF_COUNT_HW_BUS_CYCLES :: int where [perf_consts]: "PERF_COUNT_HW_BUS_CYCLES = 6"
definition PERF_COUNT_HW_STALLED_CYCLES_FRONTEND :: int where [perf_consts]: "PERF_COUNT_HW_STALLED_CYCLES_FRONTEND = 7"
definition PERF_COUNT_HW_STALLED_CYCLES_BACKEND :: int where [perf_consts]: "PERF_COUNT_HW_STALLED_CYCLES_BACKEND = 8"
definition PERF_COUNT_HW_REF_CPU_CYCLES :: int where [perf_consts]: "PERF_COUNT_HW_REF_CPU_CYCLES = 9"

definition PERF_COUNT_SW_TASK_CLOCK :: int where [perf_consts]: "PERF_COUNT_SW_TASK_CLOCK = 1"
definition PERF_COUNT_SW_PAGE_FAULTS :: int where [perf_consts]: "PERF_COUNT_SW_PAGE_FAULTS = 2"
definition PERF_COUNT_SW_CONTEXT_SWITCHES :: int where [perf_consts]: "PERF_COUNT_SW_CONTEXT_SWITCHES = 3"
definition PERF_COUNT_SW_CPU_MIGRATIONS :: int where [perf_consts]: "PERF_COUNT_SW_CPU_MIGRATIONS = 4"
definition PERF_COUNT_SW_PAGE_FAULTS_MIN :: int where [perf_consts]: "PERF_COUNT_SW_PAGE_FAULTS_MIN = 5"
definition PERF_COUNT_SW_PAGE_FAULTS_MAJ :: int where [perf_consts]: "PERF_COUNT_SW_PAGE_FAULTS_MAJ = 6"
definition PERF_COUNT_SW_ALIGNMENT_FAULTS :: int where [perf_consts]: "PERF_COUNT_SW_ALIGNMENT_FAULTS = 7"
definition PERF_COUNT_SW_EMULATION_FAULTS :: int where [perf_consts]: "PERF_COUNT_SW_EMULATION_FAULTS = 8"

definition softwareEvent :: "int \<Rightarrow> Event \<Rightarrow> PerfEventInfo" where
  "softwareEvent cfg ev =
     \<lparr>event_type = PERF_TYPE_SOFTWARE, event_config = cfg, profile_event = ev\<rparr>"

definition hardwareEvent :: "int \<Rightarrow> Event \<Rightarrow> PerfEventInfo" where
  "hardwareEvent cfg ev =
     \<lparr>event_type = PERF_TYPE_HARDWARE, event_config = cfg, profile_event = ev\<rparr>"

text \<open>The catalog, lines 38 to 64, in the order of the source.\<close>

definition raw_events_info :: "PerfEventInfo list" where
  "raw_events_info =
    [hardwareEvent PERF_COUNT_HW_CPU_CYCLES PE_PERF_COUNT_HW_CPU_CYCLES,
     hardwareEvent PERF_COUNT_HW_INSTRUCTIONS PE_PERF_COUNT_HW_INSTRUCTIONS,
     hardwareEvent PERF_COUNT_HW_CACHE_REFERENCES PE_PERF_COUNT_HW_CACHE_REFERENCES,
     hardwareEvent PERF_COUNT_HW_CACHE_MISSES PE_PERF_COUNT_HW_CACHE_MISSES,
     hardwareEvent PERF_COUNT_HW_BRANCH_INSTRUCTIONS PE_PERF_COUNT_HW_BRANCH_INSTRUCTIONS,
     hardwareEvent PERF_COUNT_HW_BRANCH_MISSES PE_PERF_COUNT_HW_BRANCH_MISSES,
     hardwareEvent PERF_COUNT_HW_BUS_CYCLES PE_PERF_COUNT_HW_BUS_CYCLES,
     hardwareEvent PERF_COUNT_HW_STALLED_CYCLES_FRONTEND PE_PERF_COUNT_HW_STALLED_CYCLES_FRONTEND,
     hardwareEvent PERF_COUNT_HW_STALLED_CYCLES_BACKEND PE_PERF_COUNT_HW_STALLED_CYCLES_BACKEND,
     hardwareEvent PERF_COUNT_HW_REF_CPU_CYCLES PE_PERF_COUNT_HW_REF_CPU_CYCLES,
     softwareEvent PERF_COUNT_SW_TASK_CLOCK PE_PERF_COUNT_SW_TASK_CLOCK,
     softwareEvent PERF_COUNT_SW_PAGE_FAULTS PE_PERF_COUNT_SW_PAGE_FAULTS,
     softwareEvent PERF_COUNT_SW_CONTEXT_SWITCHES PE_PERF_COUNT_SW_CONTEXT_SWITCHES,
     softwareEvent PERF_COUNT_SW_CPU_MIGRATIONS PE_PERF_COUNT_SW_CPU_MIGRATIONS,
     softwareEvent PERF_COUNT_SW_PAGE_FAULTS_MIN PE_PERF_COUNT_SW_PAGE_FAULTS_MIN,
     softwareEvent PERF_COUNT_SW_PAGE_FAULTS_MAJ PE_PERF_COUNT_SW_PAGE_FAULTS_MAJ,
     softwareEvent PERF_COUNT_SW_ALIGNMENT_FAULTS PE_PERF_COUNT_SW_ALIGNMENT_FAULTS,
     softwareEvent PERF_COUNT_SW_EMULATION_FAULTS PE_PERF_COUNT_SW_EMULATION_FAULTS]"

text \<open>
  \<^verbatim>\<open>NUMBER_OF_RAW_EVENTS\<close> is the size of the catalog (the \<^verbatim>\<open>static_assert\<close> of line 65).
  The operations below take the catalog as their first argument, so that they can be run on
  a catalog of any size; the program itself runs them on \<open>raw_events_info\<close>.
\<close>

definition NUMBER_OF_RAW_EVENTS :: "PerfEventInfo list \<Rightarrow> nat" where
  "NUMBER_OF_RAW_EVENTS cat = length cat"

subsection \<open>Logger and operating system\<close>

datatype logger = PerfEventsCounters | PerfDescriptorsHolder

datatype log_message =
    CantFindPerfEventInfo int int
  | PerfEventsAreUnsupported
  | NotEnoughPermissions
  | PerfEventIsUnsupported int int
  | OnlyOneInstance
  | CantReadEventValue int
  | CantDisablePerfEvent int
  | CantResetPerfEvent int
  | CantClosePerfEvent int

datatype log_entry = LOG_INFO logger log_message | LOG_WARNING logger log_message

text \<open>
  The fields of \<^verbatim>\<open>perf_event_attr\<close> that \<^verbatim>\<open>perfEventOpenDisabled\<close> sets (\<^verbatim>\<open>type\<close>, \<^verbatim>\<open>config\<close>,
  \<^verbatim>\<open>disabled\<close>, \<^verbatim>\<open>exclude_kernel\<close>); \<^verbatim>\<open>size\<close> is the size of the structure and is left out.
\<close>

record perf_event_attr =
  attr_type :: int
  attr_config :: int
  attr_disabled :: bool
  attr_exclude_kernel :: bool

text \<open>
  The calls to the operating system that the file makes. \<^verbatim>\<open>perf_event_open\<close> is always called
  for the calling thread, on any cpu, without a group and without flags (line 133), so the
  trace keeps its attribute only.
\<close>

datatype os_call =
    ReadPerfEventParanoid
  | HasLinuxCapability
  | PerfEventOpen perf_event_attr
  | IoctlEnable int
  | IoctlDisable int
  | IoctlReset int
  | ReadCounter int
  | CloseDescriptor int

text \<open>
  What the operating system answers. \<open>paranoid_file\<close> is what
  \<^verbatim>\<open>/proc/sys/kernel/perf_event_paranoid\<close> holds (\<open>None\<close> when \<^verbatim>\<open>fopen\<close> returns a null pointer;
  the empty string when nothing can be read from it); \<open>errno\<close> is the value of the thread's
  \<^verbatim>\<open>errno\<close> as line 115 finds it, which is whatever the last library call that set it left
  there, since the function never clears it; \<open>has_cap_sys_admin\<close> is the answer of
  \<^verbatim>\<open>hasLinuxCapability(CAP_SYS_ADMIN)\<close>, a function of the repository that is not among the
  sources and is taken as this parameter; \<open>perf_event_open\<close> is the descriptor that the
  system call returns for an attribute (\<open>-1\<close> on failure); \<open>read_counter\<close> is the count that
  \<^verbatim>\<open>read\<close> stores (\<open>None\<close> when it does not return eight bytes); the others say whether the
  \<^verbatim>\<open>ioctl\<close> that disables or resets an event, or the \<^verbatim>\<open>close\<close>, returns non-zero (the result
  of the \<^verbatim>\<open>ioctl\<close> that enables one is not looked at).
\<close>

record os_env =
  paranoid_file :: "string option"
  errno :: int
  has_cap_sys_admin :: bool
  perf_event_open :: "perf_event_attr \<Rightarrow> int"
  read_counter :: "int \<Rightarrow> UInt64 option"
  ioctl_disable_fails :: "int \<Rightarrow> bool"
  ioctl_reset_fails :: "int \<Rightarrow> bool"
  close_fails :: "int \<Rightarrow> bool"

text \<open>
  A session (\<^verbatim>\<open>PerfEventsCounters\<close> object) is its address; \<open>raw_event_values\<close> gives the
  array of each.
\<close>

type_synonym session = nat
type_synonym sink = "(Event \<times> UInt64) list"

record state =
  descriptors :: "int list"
  thread_events_descriptors_opened :: bool
  current_thread_counters :: "session option"
  perf_unavailability_logged :: bool
  particular_events_unavailability_logged :: bool
  raw_event_values :: "session \<Rightarrow> UInt64 list"
  log_lines :: "log_entry list"
  os_calls :: "os_call list"

text \<open>
  Modelled from the spec: \<^verbatim>\<open>ProfileEvents::Counters\<close> and its \<^verbatim>\<open>increment\<close> are not among the
  sources. The specification's sink "receives named metric increments" through
  \<^verbatim>\<open>sink.increment(metric_id, delta)\<close>; the model keeps the increments received, in order.
\<close>

definition increment :: "Event \<Rightarrow> UInt64 \<Rightarrow> sink \<Rightarrow> sink" where
  "increment event amount profile_events = profile_events @ [(event, amount)]"

definition emit :: "log_entry \<Rightarrow> state \<Rightarrow> state" where
  "emit e st = st\<lparr>log_lines := log_lines st @ [e]\<rparr>"

definition called :: "os_call \<Rightarrow> state \<Rightarrow> state" where
  "called k st = st\<lparr>os_calls := os_calls st @ [k]\<rparr>"

subsection \<open>getRawValue (lines 79 to 90)\<close>

function getRawValue_from ::
  "PerfEventInfo list \<Rightarrow> UInt64 list \<Rightarrow> int \<Rightarrow> int \<Rightarrow> nat \<Rightarrow> UInt64 \<times> log_entry list" where
  "getRawValue_from cat vals ty cfg i =
     (if i < NUMBER_OF_RAW_EVENTS cat then
        (if event_type (cat ! i) = ty \<and> event_config (cat ! i) = cfg then (vals ! i, [])
         else getRawValue_from cat vals ty cfg (Suc i))
      else (0, [LOG_WARNING PerfEventsCounters (CantFindPerfEventInfo ty cfg)]))"
  by pat_completeness auto
termination
  by (relation "measure (\<lambda>(cat, vals, ty, cfg, i). length cat - i)")
     (auto simp: NUMBER_OF_RAW_EVENTS_def)

declare getRawValue_from.simps [simp del]

text \<open>The value returned and the lines logged.\<close>

definition getRawValue ::
  "PerfEventInfo list \<Rightarrow> UInt64 list \<Rightarrow> int \<Rightarrow> int \<Rightarrow> UInt64 \<times> log_entry list" where
  "getRawValue cat vals ty cfg = getRawValue_from cat vals ty cfg 0"

subsection \<open>Opening the descriptors (lines 92 to 178)\<close>

text \<open>\<^verbatim>\<open>openPerfEvent\<close>: the system call, made and recorded.\<close>

definition openPerfEvent :: "os_env \<Rightarrow> perf_event_attr \<Rightarrow> state \<Rightarrow> int \<times> state" where
  "openPerfEvent env hw_event st = (perf_event_open env hw_event, called (PerfEventOpen hw_event) st)"

text \<open>
  The two functions of the C library that \<^verbatim>\<open>getPerfEventParanoid\<close> calls on the file.
  \<^verbatim>\<open>fgets(str, n, fp)\<close> stores at most \<open>n - 1\<close> characters, stopping after a newline, and
  returns a null pointer (\<open>None\<close>) when there is nothing to read. \<^verbatim>\<open>strtol(str, nullptr, 10)\<close>
  skips white space, takes an optional sign and the decimal digits that follow, and returns
  0 when there is no digit. The buffer holds at most two characters, so the value lies
  between -9 and 99 and neither \<^verbatim>\<open>strtol\<close> nor the cast to \<^verbatim>\<open>Int32\<close> overflows.
\<close>

fun fgets_chars :: "nat \<Rightarrow> string \<Rightarrow> string" where
  "fgets_chars 0 content = []"
| "fgets_chars (Suc k) [] = []"
| "fgets_chars (Suc k) (ch # rest) =
     (if ch = CHR 0x0A then [ch] else ch # fgets_chars k rest)"

definition fgets :: "nat \<Rightarrow> string \<Rightarrow> string option" where
  "fgets n content = (if content = [] then None else Some (fgets_chars (n - 1) content))"

definition isspace :: "char \<Rightarrow> bool" where
  "isspace ch = (ch \<in> set [CHR 0x20, CHR 0x09, CHR 0x0A, CHR 0x0B, CHR 0x0C, CHR 0x0D])"

definition digit_value :: "char \<Rightarrow> int option" where
  "digit_value ch =
     map_of [(CHR ''0'', 0), (CHR ''1'', 1), (CHR ''2'', 2), (CHR ''3'', 3), (CHR ''4'', 4),
             (CHR ''5'', 5), (CHR ''6'', 6), (CHR ''7'', 7), (CHR ''8'', 8), (CHR ''9'', 9)] ch"

fun strtol_digits :: "int \<Rightarrow> string \<Rightarrow> int" where
  "strtol_digits acc [] = acc"
| "strtol_digits acc (ch # rest) =
     (case digit_value ch of
        None \<Rightarrow> acc
      | Some d \<Rightarrow> strtol_digits (10 * acc + d) rest)"

definition strtol :: "string \<Rightarrow> int" where
  "strtol str =
     (case dropWhile isspace str of
        [] \<Rightarrow> 0
      | ch # rest \<Rightarrow>
          if ch = CHR ''-'' then - strtol_digits 0 rest
          else if ch = CHR ''+'' then strtol_digits 0 rest
          else strtol_digits 0 (ch # rest))"

text \<open>
  \<^verbatim>\<open>getPerfEventParanoid\<close> (lines 97 to 120): the result is \<open>None\<close> where the source returns
  false, and the number stored in \<^verbatim>\<open>result\<close> where it returns true. The file is opened and
  at most two characters of it are read; the characters are parsed; a value of 0 is taken
  for a failure when \<^verbatim>\<open>errno\<close> is not 0.
\<close>

definition max_length :: nat where
  "max_length = 3"

definition getPerfEventParanoid :: "os_env \<Rightarrow> int option" where
  "getPerfEventParanoid env =
     (case paranoid_file env of
        None \<Rightarrow> None
      | Some content \<Rightarrow>
          (case fgets max_length content of
             None \<Rightarrow> None
           | Some str \<Rightarrow>
               (let str1 = take (max_length - 1) str;
                    value = strtol str1
                in if value = 0 \<and> errno env \<noteq> 0 then None else Some value)))"

text \<open>The call \<^verbatim>\<open>hasLinuxCapability(CAP_SYS_ADMIN)\<close> of line 151.\<close>

definition hasLinuxCapability :: "os_env \<Rightarrow> state \<Rightarrow> bool \<times> state" where
  "hasLinuxCapability env st = (has_cap_sys_admin env, called HasLinuxCapability st)"

text \<open>
  \<^verbatim>\<open>perfEventOpenDisabled\<close>: the event is opened disabled, and its \<^verbatim>\<open>exclude_kernel\<close> bit is
  \<^verbatim>\<open>perf_event_paranoid >= 2 && !has_cap_sys_admin\<close>.
\<close>

definition perfEventOpenDisabled ::
  "os_env \<Rightarrow> int \<Rightarrow> bool \<Rightarrow> int \<Rightarrow> int \<Rightarrow> state \<Rightarrow> int \<times> state" where
  "perfEventOpenDisabled env perf_event_paranoid1 has_cap_sys_admin1 perf_event_type
       perf_event_config st =
     (let pe = \<lparr>attr_type = perf_event_type,
                attr_config = perf_event_config,
                attr_disabled = True,
                attr_exclude_kernel = (perf_event_paranoid1 \<ge> 2 \<and> \<not> has_cap_sys_admin1)\<rparr>
      in openPerfEvent env pe st)"

text \<open>
  \<^verbatim>\<open>std::atomic<bool>::compare_exchange_strong(expected, desired)\<close> on a flag: whether the
  exchange happened, and the flag afterwards.
\<close>

definition compare_exchange_strong :: "bool \<Rightarrow> bool \<Rightarrow> bool \<Rightarrow> bool \<times> bool" where
  "compare_exchange_strong flag expected desired =
     (if flag = expected then (True, desired) else (False, flag))"

text \<open>Lines 145 to 147 and 154 to 156: the line is logged by whoever sets the flag.\<close>

definition log_unavailability_once :: "log_message \<Rightarrow> state \<Rightarrow> state" where
  "log_unavailability_once msg st =
     (case compare_exchange_strong (perf_unavailability_logged st) False True of
        (exchanged, flag) \<Rightarrow>
          (let st1 = st\<lparr>perf_unavailability_logged := flag\<rparr>
           in if exchanged then emit (LOG_INFO PerfEventsCounters msg) st1 else st1))"

text \<open>The body of the loop of lines 162 to 174, at index \<open>i\<close>, for the session \<open>c\<close>.\<close>

definition open_event ::
  "PerfEventInfo list \<Rightarrow> os_env \<Rightarrow> int \<Rightarrow> bool \<Rightarrow> bool \<Rightarrow> session \<Rightarrow> nat \<Rightarrow> state \<Rightarrow> state" where
  "open_event cat env paranoid cap log_unsupported_event c i st =
     (let st1 = st\<lparr>raw_event_values := (raw_event_values st)(c := (raw_event_values st c)[i := 0])\<rparr>;
          event_info = cat ! i
      in case perfEventOpenDisabled env paranoid cap
                (event_type event_info) (event_config event_info) st1 of
           (fd, st2) \<Rightarrow>
             (let st3 = st2\<lparr>descriptors := (descriptors st2)[i := fd]\<rparr>
              in if fd = -1 \<and> log_unsupported_event
                 then emit (LOG_INFO PerfEventsCounters
                        (PerfEventIsUnsupported (event_type event_info) (event_config event_info))) st3
                 else st3))"

definition initializeThreadLocalEvents ::
  "PerfEventInfo list \<Rightarrow> os_env \<Rightarrow> session \<Rightarrow> state \<Rightarrow> bool \<times> state" where
  "initializeThreadLocalEvents cat env c st =
     (if thread_events_descriptors_opened st then (True, st)
      else
        (case (getPerfEventParanoid env, called ReadPerfEventParanoid st) of
           (None, st1) \<Rightarrow> (False, log_unavailability_once PerfEventsAreUnsupported st1)
         | (Some paranoid, st1) \<Rightarrow>
             (case hasLinuxCapability env st1 of
                (cap, st2) \<Rightarrow>
                  if paranoid \<ge> 3 \<and> \<not> cap
                  then (False, log_unavailability_once NotEnoughPermissions st2)
                  else
                    (case compare_exchange_strong
                            (particular_events_unavailability_logged st2) False True of
                       (log_unsupported_event, flag) \<Rightarrow>
                         (let st3 = st2\<lparr>particular_events_unavailability_logged := flag\<rparr>;
                              st4 = fold (open_event cat env paranoid cap log_unsupported_event c)
                                      [0 ..< NUMBER_OF_RAW_EVENTS cat] st3
                          in (True, st4\<lparr>thread_events_descriptors_opened := True\<rparr>))))))"

subsection \<open>initializeProfileEvents (lines 180 to 203)\<close>

text \<open>The body of the loop of lines 196 to 200.\<close>

definition enable_event :: "int \<Rightarrow> state \<Rightarrow> state" where
  "enable_event fd st = (if fd \<noteq> -1 then called (IoctlEnable fd) st else st)"

definition initializeProfileEvents ::
  "PerfEventInfo list \<Rightarrow> os_env \<Rightarrow> session \<Rightarrow> state \<Rightarrow> state" where
  "initializeProfileEvents cat env c st =
     (if current_thread_counters st = Some c then st
      else if current_thread_counters st \<noteq> None
      then emit (LOG_WARNING PerfEventsCounters OnlyOneInstance) st
      else
        (case initializeThreadLocalEvents cat env c st of
           (ok, st1) \<Rightarrow>
             if \<not> ok then st1
             else
               (let st2 = st1\<lparr>raw_event_values :=
                            (raw_event_values st1)(c := map (\<lambda>raw_value. 0) (raw_event_values st1 c))\<rparr>;
                    st3 = fold enable_event (descriptors st2) st2
                in st3\<lparr>current_thread_counters := Some c\<rparr>)))"

subsection \<open>finalizeProfileEvents (lines 205 to 259)\<close>

text \<open>
  Unsigned division of the machine: a zero divisor is a fault (undefined behaviour in C++),
  which the model returns as a value.
\<close>

datatype fault = DivisionByZero

definition udiv :: "UInt64 \<Rightarrow> UInt64 \<Rightarrow> fault + UInt64" where
  "udiv a b = (if b = 0 then Inl DivisionByZero else Inr (a div b))"

text \<open>The body of the loop of lines 215 to 227.\<close>

definition read_event :: "os_env \<Rightarrow> session \<Rightarrow> nat \<Rightarrow> state \<Rightarrow> state" where
  "read_event env c i st =
     (let fd = descriptors st ! i
      in if fd = -1 then st
         else
           (let st1 = called (ReadCounter fd) st
            in case read_counter env fd of
                 Some v \<Rightarrow>
                   st1\<lparr>raw_event_values := (raw_event_values st1)(c := (raw_event_values st1 c)[i := v])\<rparr>
               | None \<Rightarrow>
                   (let st2 = emit (LOG_WARNING PerfEventsCounters (CantReadEventValue fd)) st1
                    in st2\<lparr>raw_event_values :=
                             (raw_event_values st2)(c := (raw_event_values st2 c)[i := 0])\<rparr>)))"

text \<open>The body of the loop of lines 230 to 242.\<close>

definition report_event ::
  "PerfEventInfo list \<Rightarrow> os_env \<Rightarrow> session \<Rightarrow> nat \<Rightarrow> sink \<times> state \<Rightarrow> sink \<times> state" where
  "report_event cat env c i p =
     (case p of (profile_events, st) \<Rightarrow>
        (let fd = descriptors st ! i
         in if fd = -1 then (profile_events, st)
            else
              (let profile_events1 =
                     increment (profile_event (cat ! i)) (raw_event_values st c ! i) profile_events;
                   st1 = called (IoctlDisable fd) st;
                   st2 = (if ioctl_disable_fails env fd
                          then emit (LOG_WARNING PerfEventsCounters (CantDisablePerfEvent fd)) st1
                          else st1);
                   st3 = called (IoctlReset fd) st2;
                   st4 = (if ioctl_reset_fails env fd
                          then emit (LOG_WARNING PerfEventsCounters (CantResetPerfEvent fd)) st3
                          else st3)
               in (profile_events1, st4))))"

text \<open>A call of \<open>getRawValue\<close> on the session \<open>c\<close>, its lines going to the log.\<close>

definition counters_getRawValue ::
  "PerfEventInfo list \<Rightarrow> session \<Rightarrow> int \<Rightarrow> int \<Rightarrow> state \<Rightarrow> UInt64 \<times> state" where
  "counters_getRawValue cat c ty cfg st =
     (case getRawValue cat (raw_event_values st c) ty cfg of
        (v, lines) \<Rightarrow> (v, st\<lparr>log_lines := log_lines st @ lines\<rparr>))"

text \<open>
  The conditional expressions of lines 248 to 253: the instructions are looked up, and the
  division made, only when the cycles are not zero.
\<close>

definition instructions_per ::
  "PerfEventInfo list \<Rightarrow> session \<Rightarrow> UInt64 \<Rightarrow> state \<Rightarrow> fault + (UInt64 \<times> state)" where
  "instructions_per cat c cycles st =
     (if cycles \<noteq> 0 then
        (case counters_getRawValue cat c PERF_TYPE_HARDWARE PERF_COUNT_HW_INSTRUCTIONS st of
           (instructions, st1) \<Rightarrow>
             (case udiv instructions cycles of
                Inl f \<Rightarrow> Inl f
              | Inr q \<Rightarrow> Inr (q, st1)))
      else Inr (0, st))"

definition finalizeProfileEvents ::
  "PerfEventInfo list \<Rightarrow> os_env \<Rightarrow> session \<Rightarrow> sink \<Rightarrow> state \<Rightarrow> fault + (sink \<times> state)" where
  "finalizeProfileEvents cat env c profile_events st =
     (if current_thread_counters st \<noteq> Some c then Inr (profile_events, st)
      else if \<not> thread_events_descriptors_opened st then Inr (profile_events, st)
      else
        (let st1 = fold (read_event env c) [0 ..< NUMBER_OF_RAW_EVENTS cat] st
         in case fold (report_event cat env c) [0 ..< NUMBER_OF_RAW_EVENTS cat]
                   (profile_events, st1) of
              (profile_events1, st2) \<Rightarrow>
                (case counters_getRawValue cat c PERF_TYPE_HARDWARE PERF_COUNT_HW_CPU_CYCLES st2 of
                   (hw_cpu_cycles, st3) \<Rightarrow>
                (case counters_getRawValue cat c PERF_TYPE_HARDWARE PERF_COUNT_HW_REF_CPU_CYCLES st3 of
                   (hw_ref_cpu_cycles, st4) \<Rightarrow>
                (case instructions_per cat c hw_cpu_cycles st4 of
                   Inl f \<Rightarrow> Inl f
                 | Inr (instructions_per_cpu_scaled, st5) \<Rightarrow>
                (case instructions_per cat c hw_ref_cpu_cycles st5 of
                   Inl f \<Rightarrow> Inl f
                 | Inr (instructions_per_cpu, st6) \<Rightarrow>
                     Inr (increment PE_PERF_CUSTOM_INSTRUCTIONS_PER_CPU_CYCLE instructions_per_cpu
                            (increment PE_PERF_CUSTOM_INSTRUCTIONS_PER_CPU_CYCLE_SCALED
                               instructions_per_cpu_scaled profile_events1),
                          st6\<lparr>current_thread_counters := None\<rparr>)))))))"

subsection \<open>PerfDescriptorsHolder (lines 266 to 287)\<close>

text \<open>The constructor: every descriptor is \<open>-1\<close>.\<close>

definition PerfDescriptorsHolder_ctor :: "PerfEventInfo list \<Rightarrow> int list" where
  "PerfDescriptorsHolder_ctor cat = replicate (NUMBER_OF_RAW_EVENTS cat) (-1)"

text \<open>The body of the destructor's loop, on one descriptor: the descriptor afterwards.\<close>

definition release_descriptor :: "os_env \<Rightarrow> int \<Rightarrow> state \<Rightarrow> int \<times> state" where
  "release_descriptor env descriptor st =
     (if descriptor = -1 then (descriptor, st)
      else
        (let st1 = called (IoctlDisable descriptor) st;
             st2 = (if ioctl_disable_fails env descriptor
                    then emit (LOG_WARNING PerfDescriptorsHolder (CantDisablePerfEvent descriptor)) st1
                    else st1);
             st3 = called (CloseDescriptor descriptor) st2;
             st4 = (if close_fails env descriptor
                    then emit (LOG_WARNING PerfDescriptorsHolder (CantClosePerfEvent descriptor)) st3
                    else st3)
         in (-1, st4)))"

fun release_all :: "os_env \<Rightarrow> int list \<Rightarrow> state \<Rightarrow> int list \<times> state" where
  "release_all env [] st = ([], st)"
| "release_all env (descriptor # rest) st =
     (case release_descriptor env descriptor st of
        (descriptor1, st1) \<Rightarrow>
          (case release_all env rest st1 of
             (rest1, st2) \<Rightarrow> (descriptor1 # rest1, st2)))"

text \<open>
  The destructor, run on the thread's holder. The loop works on the array; the other fields
  of the state follow the calls and the log.
\<close>

definition PerfDescriptorsHolder_dtor :: "os_env \<Rightarrow> state \<Rightarrow> state" where
  "PerfDescriptorsHolder_dtor env st =
     (case release_all env (descriptors st) st of
        (ds, st1) \<Rightarrow> st1\<lparr>descriptors := ds\<rparr>)"

text \<open>
  A thread as it starts (lines 67 to 69): the holder constructed, nothing opened, no active
  session. The process-wide flags, the sessions' arrays, the log and the trace are whatever
  they are at that moment.
\<close>

definition thread_start ::
  "PerfEventInfo list \<Rightarrow> bool \<Rightarrow> bool \<Rightarrow> (session \<Rightarrow> UInt64 list) \<Rightarrow> state" where
  "thread_start cat unavailability_logged particular_logged vals =
     \<lparr>descriptors = PerfDescriptorsHolder_ctor cat,
      thread_events_descriptors_opened = False,
      current_thread_counters = None,
      perf_unavailability_logged = unavailability_logged,
      particular_events_unavailability_logged = particular_logged,
      raw_event_values = vals,
      log_lines = [],
      os_calls = []\<rparr>"

subsection \<open>A small catalog and a synthetic operating system\<close>

text \<open>
  The catalog of the two events \<^verbatim>\<open>cpu_cycles\<close> and \<^verbatim>\<open>instructions\<close>, and an operating system
  whose descriptor for the configuration \<open>cfg\<close> is \<open>3 + cfg\<close>, the counters of descriptors 3
  and 4 reading 1000 and 500. Its file holds the given text followed by a newline, or is
  missing, and \<^verbatim>\<open>errno\<close> is 0. They are the concrete inputs of the examples below.
\<close>

definition two_events :: "PerfEventInfo list" where
  "two_events =
    [hardwareEvent PERF_COUNT_HW_CPU_CYCLES PE_PERF_COUNT_HW_CPU_CYCLES,
     hardwareEvent PERF_COUNT_HW_INSTRUCTIONS PE_PERF_COUNT_HW_INSTRUCTIONS]"

definition synthetic_os :: "string option \<Rightarrow> bool \<Rightarrow> os_env" where
  "synthetic_os paranoid cap =
     \<lparr>paranoid_file = map_option (\<lambda>text. text @ [CHR 0x0A]) paranoid,
      errno = 0,
      has_cap_sys_admin = cap,
      perf_event_open = (\<lambda>hw_event. 3 + attr_config hw_event),
      read_counter = (\<lambda>fd. if fd = 3 then Some 1000 else if fd = 4 then Some 500 else None),
      ioctl_disable_fails = (\<lambda>fd. False),
      ioctl_reset_fails = (\<lambda>fd. False),
      close_fails = (\<lambda>fd. False)\<rparr>"

text \<open>
  A thread of the program in the middle of a region measured by session 7: the descriptor
  of \<^verbatim>\<open>cpu_cycles\<close> is 4, that of \<^verbatim>\<open>instructions\<close> is 3, that of \<^verbatim>\<open>ref_cpu_cycles\<close> is 5 (which
  the synthetic operating system fails to read), and the other events are unsupported.
\<close>

definition measured_thread :: state where
  "measured_thread =
    \<lparr>descriptors = [4, 3, -1, -1, -1, -1, -1, -1, -1, 5, -1, -1, -1, -1, -1, -1, -1, -1],
     thread_events_descriptors_opened = True,
     current_thread_counters = Some 7,
     perf_unavailability_logged = False,
     particular_events_unavailability_logged = True,
     raw_event_values = (\<lambda>c. [0, 0, 0, 0, 0, 0, 0, 0, 0, 0, 0, 0, 0, 0, 0, 0, 0, 0]),
     log_lines = [],
     os_calls = []\<rparr>"

subsection \<open>Notions used to state the properties\<close>

text \<open>
  The call that opens an event of the given type and configuration, disabled, with the
  given \<^verbatim>\<open>exclude_kernel\<close> bit.
\<close>

definition opens_disabled :: "int \<Rightarrow> int \<Rightarrow> bool \<Rightarrow> os_call" where
  "opens_disabled ty cfg exclude_kernel =
     PerfEventOpen \<lparr>attr_type = ty, attr_config = cfg, attr_disabled = True,
                    attr_exclude_kernel = exclude_kernel\<rparr>"

text \<open>The descriptors of a holder that are open: those that are not \<open>-1\<close>.\<close>

definition valid_descriptors :: "int list \<Rightarrow> int list" where
  "valid_descriptors ds = filter (\<lambda>d. d \<noteq> -1) ds"

text \<open>The warnings that the destructor logs for one open descriptor.\<close>

definition release_warnings :: "os_env \<Rightarrow> int \<Rightarrow> log_entry list" where
  "release_warnings env d =
     (if ioctl_disable_fails env d
      then [LOG_WARNING PerfDescriptorsHolder (CantDisablePerfEvent d)] else []) @
     (if close_fails env d
      then [LOG_WARNING PerfDescriptorsHolder (CantClosePerfEvent d)] else [])"

text \<open>The count that the read loop stores for an open descriptor: zero when the read fails.\<close>

definition counted :: "os_env \<Rightarrow> int \<Rightarrow> UInt64" where
  "counted env fd = (case read_counter env fd of Some v \<Rightarrow> v | None \<Rightarrow> 0)"

text \<open>A derived ratio as the specification words it: truncating division, zero for zero cycles.\<close>

definition ratio_or_zero :: "UInt64 \<Rightarrow> UInt64 \<Rightarrow> UInt64" where
  "ratio_or_zero instructions cycles = (if cycles \<noteq> 0 then instructions div cycles else 0)"

text \<open>
  The increments of the raw events: for each index of the catalog whose descriptor is open,
  in order, the metric of the entry and the value of the array at that index.
\<close>

definition raw_increments :: "PerfEventInfo list \<Rightarrow> int list \<Rightarrow> UInt64 list \<Rightarrow> sink" where
  "raw_increments cat ds vals =
     map (\<lambda>i. (profile_event (cat ! i), vals ! i))
       (filter (\<lambda>i. ds ! i \<noteq> -1) [0 ..< length cat])"

text \<open>
  The array of a session after the read loop, when it was all zero before: the count of the
  descriptor where one is open, zero elsewhere.
\<close>

definition injected_counts :: "PerfEventInfo list \<Rightarrow> os_env \<Rightarrow> int list \<Rightarrow> UInt64 list" where
  "injected_counts cat env ds =
     map (\<lambda>i. if ds ! i \<noteq> -1 then counted env (ds ! i) else 0) [0 ..< length cat]"

subsection \<open>Sequences of calls on one thread\<close>

text \<open>
  What a thread can do with the subsystem between its start and its end: the two public
  operations, for any session, sink and answers of the operating system, and the destructor
  of its holder. A run stops at a fault.
\<close>

datatype call =
    Initialize os_env session
  | Finalize os_env session sink
  | ThreadExit os_env

fun run_call :: "PerfEventInfo list \<Rightarrow> call \<Rightarrow> state \<Rightarrow> fault + state" where
  "run_call cat (Initialize env c) st = Inr (initializeProfileEvents cat env c st)"
| "run_call cat (Finalize env c profile_events) st =
     (case finalizeProfileEvents cat env c profile_events st of
        Inl f \<Rightarrow> Inl f
      | Inr (profile_events1, st1) \<Rightarrow> Inr st1)"
| "run_call cat (ThreadExit env) st = Inr (PerfDescriptorsHolder_dtor env st)"

fun run :: "PerfEventInfo list \<Rightarrow> call list \<Rightarrow> state \<Rightarrow> fault + state" where
  "run cat [] st = Inr st"
| "run cat (k # ks) st =
     (case run_call cat k st of
        Inl f \<Rightarrow> Inl f
      | Inr st1 \<Rightarrow> run cat ks st1)"

text \<open>The invariant: an active session on the thread means that the descriptors were opened.\<close>

definition active_implies_opened :: "state \<Rightarrow> bool" where
  "active_implies_opened st =
     (current_thread_counters st = None \<or> thread_events_descriptors_opened st)"

subsection \<open>The first use of a thread, and several threads of one process\<close>

text \<open>
  The operating-system calls of a call of \<open>initializeThreadLocalEvents\<close> on a thread that
  has not opened its descriptors: the file is read; if a level comes out of it the
  capability is asked for; and unless collection is refused one event is opened per entry
  of the catalog.
\<close>

definition first_use_calls :: "PerfEventInfo list \<Rightarrow> os_env \<Rightarrow> os_call list" where
  "first_use_calls cat env =
     (case getPerfEventParanoid env of
        None \<Rightarrow> [ReadPerfEventParanoid]
      | Some p \<Rightarrow>
          [ReadPerfEventParanoid, HasLinuxCapability] @
          (if p \<ge> 3 \<and> \<not> has_cap_sys_admin env then []
           else map (\<lambda>e. opens_disabled (event_type e) (event_config e)
                          (p \<ge> 2 \<and> \<not> has_cap_sys_admin env)) cat))"









section \<open>Properties\<close>

lemmas catalog_defs = raw_events_info_def two_events_def hardwareEvent_def softwareEvent_def perf_consts

subsection \<open>getRawValue\<close>

lemma getRawValue_from_miss:
  "(\<And>j. i \<le> j \<Longrightarrow> j < length cat \<Longrightarrow>
      \<not> (event_type (cat ! j) = ty \<and> event_config (cat ! j) = cfg)) \<Longrightarrow>
   getRawValue_from cat vals ty cfg i =
     (0, [LOG_WARNING PerfEventsCounters (CantFindPerfEventInfo ty cfg)])"
proof (induction cat vals ty cfg i rule: getRawValue_from.induct)
  case (1 cat vals ty cfg i)
  show ?case
  proof (cases "i < length cat")
    case True
    have here: "\<not> (event_type (cat ! i) = ty \<and> event_config (cat ! i) = cfg)"
      using "1.prems" [of i] True by simp
    have "getRawValue_from cat vals ty cfg (Suc i) =
        (0, [LOG_WARNING PerfEventsCounters (CantFindPerfEventInfo ty cfg)])"
      using True here "1.prems" by (intro "1.IH") (auto simp: NUMBER_OF_RAW_EVENTS_def)
    then show ?thesis
      using True here
      by (subst getRawValue_from.simps) (auto simp: NUMBER_OF_RAW_EVENTS_def)
  next
    case False
    then show ?thesis
      by (subst getRawValue_from.simps) (simp add: NUMBER_OF_RAW_EVENTS_def)
  qed
qed

lemma getRawValue_from_hit:
  "i \<le> k \<Longrightarrow> k < length cat \<Longrightarrow>
   event_type (cat ! k) = ty \<and> event_config (cat ! k) = cfg \<Longrightarrow>
   (\<And>j. i \<le> j \<Longrightarrow> j < k \<Longrightarrow>
      \<not> (event_type (cat ! j) = ty \<and> event_config (cat ! j) = cfg)) \<Longrightarrow>
   getRawValue_from cat vals ty cfg i = (vals ! k, [])"
proof (induction cat vals ty cfg i rule: getRawValue_from.induct)
  case (1 cat vals ty cfg i)
  show ?case
  proof (cases "i = k")
    case True
    then show ?thesis
      using "1.prems"(2,3)
      by (subst getRawValue_from.simps) (simp add: NUMBER_OF_RAW_EVENTS_def)
  next
    case False
    then have lt: "i < k" using "1.prems"(1) by simp
    have here: "\<not> (event_type (cat ! i) = ty \<and> event_config (cat ! i) = cfg)"
      using "1.prems"(4) [of i] lt by simp
    have "getRawValue_from cat vals ty cfg (Suc i) = (vals ! k, [])"
      using lt here "1.prems" by (intro "1.IH") (auto simp: NUMBER_OF_RAW_EVENTS_def)
    then show ?thesis
      using lt here "1.prems"(2)
      by (subst getRawValue_from.simps) (auto simp: NUMBER_OF_RAW_EVENTS_def)
  qed
qed

text \<open>
  C6. For every pair of an event type and a configuration, and for a catalog of any size:
  when no entry of the catalog has that pair, \<open>getRawValue\<close> returns 0 and logs one warning;
  when the entry at index \<open>k\<close> has it (and no earlier entry does, the scan stopping at the
  first match), it returns the accumulated value stored at index \<open>k\<close> and logs nothing.
\<close>

theorem getRawValue_scan:
  "((\<forall>j < length cat. \<not> (event_type (cat ! j) = ty \<and> event_config (cat ! j) = cfg)) \<longrightarrow>
      getRawValue cat vals ty cfg =
        (0, [LOG_WARNING PerfEventsCounters (CantFindPerfEventInfo ty cfg)])) \<and>
   (k < length cat \<and> event_type (cat ! k) = ty \<and> event_config (cat ! k) = cfg \<and>
    (\<forall>j < k. \<not> (event_type (cat ! j) = ty \<and> event_config (cat ! j) = cfg)) \<longrightarrow>
      getRawValue cat vals ty cfg = (vals ! k, []))"
  unfolding getRawValue_def
  using getRawValue_from_miss [of 0 cat ty cfg vals]
        getRawValue_from_hit [of 0 k cat ty cfg vals]
  by auto

theorem getRawValue_scan_witness:
  "getRawValue raw_events_info
      [10, 11, 12, 13, 14, 15, 16, 17, 18, 19, 20, 21, 22, 23, 24, 25, 26, 27]
      PERF_TYPE_HARDWARE PERF_COUNT_HW_REF_CPU_CYCLES = (19, []) \<and>
   getRawValue raw_events_info
      [10, 11, 12, 13, 14, 15, 16, 17, 18, 19, 20, 21, 22, 23, 24, 25, 26, 27]
      PERF_TYPE_SOFTWARE 0 =
        (0, [LOG_WARNING PerfEventsCounters (CantFindPerfEventInfo PERF_TYPE_SOFTWARE 0)])"
proof -
  let ?vals = "[10, 11, 12, 13, 14, 15, 16, 17, 18, 19, 20, 21, 22, 23, 24, 25, 26, 27] :: UInt64 list"
  have len: "length raw_events_info = 18"
    by (simp add: raw_events_info_def)
  have miss: "\<forall>j < length raw_events_info.
      \<not> (event_type (raw_events_info ! j) = PERF_TYPE_SOFTWARE \<and>
         event_config (raw_events_info ! j) = 0)"
    unfolding len by (simp add: catalog_defs All_less_Suc numeral_eq_Suc)
  have hit: "9 < length raw_events_info \<and>
      event_type (raw_events_info ! 9) = PERF_TYPE_HARDWARE \<and>
      event_config (raw_events_info ! 9) = PERF_COUNT_HW_REF_CPU_CYCLES \<and>
      (\<forall>j < 9. \<not> (event_type (raw_events_info ! j) = PERF_TYPE_HARDWARE \<and>
         event_config (raw_events_info ! j) = PERF_COUNT_HW_REF_CPU_CYCLES))"
    by (simp add: catalog_defs All_less_Suc numeral_eq_Suc)
  from getRawValue_scan [where cat = raw_events_info and ty = PERF_TYPE_SOFTWARE
      and cfg = 0 and vals = ?vals] miss
  have a: "getRawValue raw_events_info ?vals PERF_TYPE_SOFTWARE 0 =
        (0, [LOG_WARNING PerfEventsCounters (CantFindPerfEventInfo PERF_TYPE_SOFTWARE 0)])"
    by blast
  from getRawValue_scan [where cat = raw_events_info and ty = PERF_TYPE_HARDWARE
      and cfg = PERF_COUNT_HW_REF_CPU_CYCLES and k = 9 and vals = ?vals] hit
  have b: "getRawValue raw_events_info ?vals PERF_TYPE_HARDWARE PERF_COUNT_HW_REF_CPU_CYCLES =
        (?vals ! 9, [])"
    by blast
  show ?thesis using a b by simp
qed

subsection \<open>A second session on a busy thread\<close>

text \<open>
  C5. When the thread's active-session slot holds a session other than the one that calls
  \<open>initializeProfileEvents\<close>, the call logs one warning and changes nothing else: the arrays
  of all sessions, the active-session slot, the descriptors, the flags and the trace of
  operating-system calls (nothing opened, enabled or disabled) are as before.
\<close>

theorem initialize_on_busy_thread:
  assumes "current_thread_counters st = Some c'" and "c' \<noteq> c"
  shows "initializeProfileEvents cat env c st =
           st\<lparr>log_lines := log_lines st @ [LOG_WARNING PerfEventsCounters OnlyOneInstance]\<rparr> \<and>
         raw_event_values (initializeProfileEvents cat env c st) = raw_event_values st \<and>
         current_thread_counters (initializeProfileEvents cat env c st) = Some c' \<and>
         descriptors (initializeProfileEvents cat env c st) = descriptors st \<and>
         os_calls (initializeProfileEvents cat env c st) = os_calls st"
  using assms by (simp add: initializeProfileEvents_def emit_def)

text \<open>The synthetic operating system: its answers, and the level that is read from its file.\<close>

lemma synthetic_os_fields:
  "has_cap_sys_admin (synthetic_os paranoid cap) = cap"
  "perf_event_open (synthetic_os paranoid cap) = (\<lambda>hw_event. 3 + attr_config hw_event)"
  "read_counter (synthetic_os paranoid cap) =
     (\<lambda>fd. if fd = 3 then Some 1000 else if fd = 4 then Some 500 else None)"
  "ioctl_disable_fails (synthetic_os paranoid cap) = (\<lambda>fd. False)"
  "ioctl_reset_fails (synthetic_os paranoid cap) = (\<lambda>fd. False)"
  "close_fails (synthetic_os paranoid cap) = (\<lambda>fd. False)"
  by (simp_all add: synthetic_os_def)

lemmas libc_defs = getPerfEventParanoid_def max_length_def fgets_def isspace_def digit_value_def
  strtol_def numeral_3_eq_3

lemma synthetic_os_level:
  "getPerfEventParanoid (synthetic_os None cap) = None"
  "getPerfEventParanoid (synthetic_os (Some ''0'') cap) = Some 0"
  "getPerfEventParanoid (synthetic_os (Some ''1'') cap) = Some 1"
  "getPerfEventParanoid (synthetic_os (Some ''2'') cap) = Some 2"
  "getPerfEventParanoid (synthetic_os (Some ''3'') cap) = Some 3"
  by (simp_all add: synthetic_os_def libc_defs)

lemmas run_defs = thread_start_def initializeProfileEvents_def initializeThreadLocalEvents_def
  finalizeProfileEvents_def NUMBER_OF_RAW_EVENTS_def PerfDescriptorsHolder_ctor_def
  compare_exchange_strong_def open_event_def perfEventOpenDisabled_def openPerfEvent_def
  hasLinuxCapability_def increment_def opens_disabled_def
  called_def emit_def
  enable_event_def read_event_def report_event_def log_unavailability_once_def
  counters_getRawValue_def getRawValue_def getRawValue_from.simps instructions_per_def udiv_def
  synthetic_os_fields synthetic_os_level upt_rec Let_def

text \<open>The state of a thread that runs the first session, 7, on the small catalog.\<close>

lemma two_events_armed:
  "initializeProfileEvents two_events (synthetic_os (Some ''1'') False) 7
     (thread_start two_events False False (\<lambda>c. [0, 0])) =
   \<lparr>descriptors = [3, 4],
    thread_events_descriptors_opened = True,
    current_thread_counters = Some 7,
    perf_unavailability_logged = False,
    particular_events_unavailability_logged = True,
    raw_event_values = (\<lambda>c. [0, 0]),
    log_lines = [],
    os_calls = [ReadPerfEventParanoid, HasLinuxCapability, opens_disabled 0 0 False,
                opens_disabled 0 1 False, IoctlEnable 3, IoctlEnable 4]\<rparr>"
  by (simp add: run_defs catalog_defs fun_eq_iff)

theorem initialize_on_busy_thread_witness:
  "current_thread_counters
      (initializeProfileEvents two_events (synthetic_os (Some ''1'') False) 7
         (thread_start two_events False False (\<lambda>c. [0, 0]))) = Some 7 \<and>
   initializeProfileEvents two_events (synthetic_os (Some ''1'') False) 8
      (initializeProfileEvents two_events (synthetic_os (Some ''1'') False) 7
         (thread_start two_events False False (\<lambda>c. [0, 0]))) =
     \<lparr>descriptors = [3, 4],
      thread_events_descriptors_opened = True,
      current_thread_counters = Some 7,
      perf_unavailability_logged = False,
      particular_events_unavailability_logged = True,
      raw_event_values = (\<lambda>c. [0, 0]),
      log_lines = [LOG_WARNING PerfEventsCounters OnlyOneInstance],
      os_calls = [ReadPerfEventParanoid, HasLinuxCapability, opens_disabled 0 0 False,
                  opens_disabled 0 1 False, IoctlEnable 3, IoctlEnable 4]\<rparr>"
proof -
  let ?st = "initializeProfileEvents two_events (synthetic_os (Some ''1'') False) 7
         (thread_start two_events False False (\<lambda>c. [0, 0]))"
  have active: "current_thread_counters ?st = Some 7"
    by (simp add: two_events_armed)
  have other: "(7::nat) \<noteq> 8" by simp
  show ?thesis
    using initialize_on_busy_thread [OF active other, of two_events "synthetic_os (Some ''1'') False"]
    by (simp add: two_events_armed)
qed

subsection \<open>Thread teardown\<close>

lemma release_descriptor_eq:
  "release_descriptor env d st =
     (-1, st\<lparr>log_lines := log_lines st @ (if d = -1 then [] else release_warnings env d),
             os_calls := os_calls st @ (if d = -1 then [] else [IoctlDisable d, CloseDescriptor d])\<rparr>)"
  by (simp add: release_descriptor_def release_warnings_def called_def emit_def Let_def)

lemma release_all_eq:
  "release_all env ds st =
     (replicate (length ds) (-1),
      st\<lparr>log_lines := log_lines st @ concat (map (release_warnings env) (valid_descriptors ds)),
         os_calls := os_calls st @
           concat (map (\<lambda>d. [IoctlDisable d, CloseDescriptor d]) (valid_descriptors ds))\<rparr>)"
proof (induction ds arbitrary: st)
  case Nil
  then show ?case by (simp add: valid_descriptors_def)
next
  case (Cons d ds)
  show ?case
    by (simp add: release_descriptor_eq Cons.IH valid_descriptors_def)
qed

lemma valid_descriptors_replicate: "valid_descriptors (replicate n (-1)) = []"
  by (simp add: valid_descriptors_def)

text \<open>
  C8. The destructor of the thread's holder, for every descriptor that is still open and in
  the order of the array, disables it and closes it, once; it logs a warning for each
  disable or close that fails, and nothing else; afterwards every descriptor is \<open>-1\<close>. The
  function is total: it returns a state whatever the operating system answers. Run a
  second time, with any operating system, it leaves the state as it is: no call, no line.
\<close>

theorem teardown_closes_once:
  "descriptors (PerfDescriptorsHolder_dtor env st) = replicate (length (descriptors st)) (-1) \<and>
   os_calls (PerfDescriptorsHolder_dtor env st) =
     os_calls st @ concat (map (\<lambda>d. [IoctlDisable d, CloseDescriptor d])
                            (valid_descriptors (descriptors st))) \<and>
   log_lines (PerfDescriptorsHolder_dtor env st) =
     log_lines st @ concat (map (release_warnings env) (valid_descriptors (descriptors st))) \<and>
   PerfDescriptorsHolder_dtor env' (PerfDescriptorsHolder_dtor env st) =
     PerfDescriptorsHolder_dtor env st"
  by (simp add: PerfDescriptorsHolder_dtor_def release_all_eq valid_descriptors_replicate)

subsection \<open>What each step leaves alone\<close>

lemma open_event_fields:
  "current_thread_counters (open_event cat env p cap l c i st) = current_thread_counters st"
  "thread_events_descriptors_opened (open_event cat env p cap l c i st) =
     thread_events_descriptors_opened st"
  "perf_unavailability_logged (open_event cat env p cap l c i st) = perf_unavailability_logged st"
  "particular_events_unavailability_logged (open_event cat env p cap l c i st) =
     particular_events_unavailability_logged st"
  "descriptors (open_event cat env p cap l c i st) =
     (descriptors st)[i := perf_event_open env
        \<lparr>attr_type = event_type (cat ! i), attr_config = event_config (cat ! i),
         attr_disabled = True, attr_exclude_kernel = (p \<ge> 2 \<and> \<not> cap)\<rparr>]"
  "raw_event_values (open_event cat env p cap l c i st) =
     (raw_event_values st)(c := (raw_event_values st c)[i := 0])"
  "os_calls (open_event cat env p cap l c i st) =
     os_calls st @ [opens_disabled (event_type (cat ! i)) (event_config (cat ! i))
                      (p \<ge> 2 \<and> \<not> cap)]"
  by (simp_all add: open_event_def perfEventOpenDisabled_def openPerfEvent_def opens_disabled_def
      called_def emit_def Let_def)

lemma open_loop_fields:
  "current_thread_counters (fold (open_event cat env p cap l c) [0 ..< n] st) =
     current_thread_counters st"
  "thread_events_descriptors_opened (fold (open_event cat env p cap l c) [0 ..< n] st) =
     thread_events_descriptors_opened st"
  "perf_unavailability_logged (fold (open_event cat env p cap l c) [0 ..< n] st) =
     perf_unavailability_logged st"
  "length (descriptors (fold (open_event cat env p cap l c) [0 ..< n] st)) =
     length (descriptors st)"
  "length (raw_event_values (fold (open_event cat env p cap l c) [0 ..< n] st) c') =
     length (raw_event_values st c')"
  "os_calls (fold (open_event cat env p cap l c) [0 ..< n] st) =
     os_calls st @ map (\<lambda>i. opens_disabled (event_type (cat ! i)) (event_config (cat ! i))
                              (p \<ge> 2 \<and> \<not> cap)) [0 ..< n]"
  by (induction n) (auto simp: open_event_fields)

lemma log_unavailability_once_fields:
  "current_thread_counters (log_unavailability_once m st) = current_thread_counters st"
  "thread_events_descriptors_opened (log_unavailability_once m st) =
     thread_events_descriptors_opened st"
  "descriptors (log_unavailability_once m st) = descriptors st"
  "raw_event_values (log_unavailability_once m st) = raw_event_values st"
  "os_calls (log_unavailability_once m st) = os_calls st"
  "perf_unavailability_logged (log_unavailability_once m st) = True"
  by (auto simp: log_unavailability_once_def compare_exchange_strong_def emit_def Let_def)

lemma called_fields:
  "current_thread_counters (called k st) = current_thread_counters st"
  "thread_events_descriptors_opened (called k st) = thread_events_descriptors_opened st"
  "descriptors (called k st) = descriptors st"
  "raw_event_values (called k st) = raw_event_values st"
  "os_calls (called k st) = os_calls st @ [k]"
  "log_lines (called k st) = log_lines st"
  "perf_unavailability_logged (called k st) = perf_unavailability_logged st"
  "particular_events_unavailability_logged (called k st) = particular_events_unavailability_logged st"
  by (simp_all add: called_def)

lemma emit_fields:
  "current_thread_counters (emit e st) = current_thread_counters st"
  "thread_events_descriptors_opened (emit e st) = thread_events_descriptors_opened st"
  "descriptors (emit e st) = descriptors st"
  "raw_event_values (emit e st) = raw_event_values st"
  "os_calls (emit e st) = os_calls st"
  "log_lines (emit e st) = log_lines st @ [e]"
  by (simp_all add: emit_def)

lemma initializeThreadLocalEvents_opened:
  "thread_events_descriptors_opened st \<Longrightarrow> initializeThreadLocalEvents cat env c st = (True, st)"
  by (simp add: initializeThreadLocalEvents_def)

lemma initializeThreadLocalEvents_result:
  "thread_events_descriptors_opened (snd (initializeThreadLocalEvents cat env c st)) =
     (thread_events_descriptors_opened st \<or> fst (initializeThreadLocalEvents cat env c st))"
  by (auto simp: initializeThreadLocalEvents_def hasLinuxCapability_def
      Let_def log_unavailability_once_fields called_fields
      split: option.splits prod.splits)

lemma initializeThreadLocalEvents_current:
  "current_thread_counters (snd (initializeThreadLocalEvents cat env c st)) = current_thread_counters st"
  by (auto simp: initializeThreadLocalEvents_def hasLinuxCapability_def
      Let_def log_unavailability_once_fields called_fields
      open_loop_fields split: option.splits prod.splits)

lemma initializeThreadLocalEvents_lengths:
  "length (descriptors (snd (initializeThreadLocalEvents cat env c st))) = length (descriptors st)"
  "length (raw_event_values (snd (initializeThreadLocalEvents cat env c st)) c') =
     length (raw_event_values st c')"
  by (auto simp: initializeThreadLocalEvents_def hasLinuxCapability_def
      Let_def log_unavailability_once_fields called_fields
      open_loop_fields split: option.splits prod.splits)

subsection \<open>Opening the descriptors\<close>

lemma first_use_trace:
  "\<not> thread_events_descriptors_opened st \<Longrightarrow>
   os_calls (snd (initializeThreadLocalEvents cat env c st)) = os_calls st @ first_use_calls cat env"
proof -
  have idx: "map (\<lambda>i. opens_disabled (event_type (cat ! i)) (event_config (cat ! i)) b) [0 ..< length cat] =
      map (\<lambda>e. opens_disabled (event_type e) (event_config e) b) cat" for b
    by (rule nth_equalityI) simp_all
  assume "\<not> thread_events_descriptors_opened st"
  then show ?thesis
    by (auto simp: initializeThreadLocalEvents_def hasLinuxCapability_def first_use_calls_def
        Let_def log_unavailability_once_fields called_fields open_loop_fields
        NUMBER_OF_RAW_EVENTS_def idx split: option.splits prod.splits)
qed

text \<open>
  The policy on the level that \<open>getPerfEventParanoid\<close> returns. On a thread that has not
  opened its descriptors, with the level \<open>p\<close>: \<open>initializeThreadLocalEvents\<close> returns failure
  exactly when \<open>p \<ge> 3\<close> and the process lacks \<^verbatim>\<open>CAP_SYS_ADMIN\<close>, and then it opens nothing
  (the only calls are the two probes, the descriptors are as before). Otherwise it opens
  one descriptor per entry of the catalog, in order, each with kernel events included
  exactly when \<open>p \<le> 1\<close> or the capability is held, and excluded otherwise; the descriptors
  stored are those that the operating system returned.
\<close>

lemma policy_on_parsed_level:
  assumes "\<not> thread_events_descriptors_opened st" and "getPerfEventParanoid env = Some p"
  shows "fst (initializeThreadLocalEvents cat env c st) = (\<not> (p \<ge> 3 \<and> \<not> has_cap_sys_admin env)) \<and>
    (if p \<ge> 3 \<and> \<not> has_cap_sys_admin env
     then os_calls (snd (initializeThreadLocalEvents cat env c st)) =
            os_calls st @ [ReadPerfEventParanoid, HasLinuxCapability] \<and>
          descriptors (snd (initializeThreadLocalEvents cat env c st)) = descriptors st \<and>
          \<not> thread_events_descriptors_opened (snd (initializeThreadLocalEvents cat env c st))
     else os_calls (snd (initializeThreadLocalEvents cat env c st)) =
            os_calls st @ [ReadPerfEventParanoid, HasLinuxCapability] @
            map (\<lambda>e. opens_disabled (event_type e) (event_config e)
                      (\<not> (p \<le> 1 \<or> has_cap_sys_admin env))) cat \<and>
          thread_events_descriptors_opened (snd (initializeThreadLocalEvents cat env c st)))"
proof -
  have idx: "map (\<lambda>i. opens_disabled (event_type (cat ! i)) (event_config (cat ! i)) b) [0 ..< length cat] =
      map (\<lambda>e. opens_disabled (event_type e) (event_config e) b) cat" for b
    by (rule nth_equalityI) simp_all
  have excl: "(p \<ge> 2 \<and> \<not> has_cap_sys_admin env) = (\<not> (p \<le> 1 \<or> has_cap_sys_admin env))"
    by auto
  show ?thesis
    using assms
    by (auto simp: initializeThreadLocalEvents_def hasLinuxCapability_def
      Let_def log_unavailability_once_fields
        called_fields open_loop_fields NUMBER_OF_RAW_EVENTS_def idx excl
        split: prod.splits)
qed

lemma open_loop_descriptor:
  "i < length (descriptors st) \<Longrightarrow>
   descriptors (fold (open_event cat env p cap l c) [0 ..< n] st) ! i =
     (if i < n
      then perf_event_open env
             \<lparr>attr_type = event_type (cat ! i), attr_config = event_config (cat ! i),
              attr_disabled = True, attr_exclude_kernel = (p \<ge> 2 \<and> \<not> cap)\<rparr>
      else descriptors st ! i)"
proof (induction n)
  case 0
  then show ?case by simp
next
  case (Suc n)
  then show ?case
    by (auto simp: open_event_fields open_loop_fields nth_list_update less_Suc_eq)
qed

lemma opened_descriptors:
  assumes "\<not> thread_events_descriptors_opened st" and "getPerfEventParanoid env = Some p"
    and "\<not> (p \<ge> 3 \<and> \<not> has_cap_sys_admin env)" and "length (descriptors st) = length cat"
  shows "descriptors (snd (initializeThreadLocalEvents cat env c st)) =
     map (\<lambda>e. perf_event_open env
                 \<lparr>attr_type = event_type e, attr_config = event_config e, attr_disabled = True,
                  attr_exclude_kernel = (\<not> (p \<le> 1 \<or> has_cap_sys_admin env))\<rparr>) cat"
proof -
  have excl: "(p \<ge> 2 \<and> \<not> has_cap_sys_admin env) = (\<not> (p \<le> 1 \<or> has_cap_sys_admin env))"
    by auto
  show ?thesis
    using assms
    by (intro nth_equalityI)
       (auto simp: initializeThreadLocalEvents_def hasLinuxCapability_def Let_def called_fields
         open_loop_fields open_loop_descriptor NUMBER_OF_RAW_EVENTS_def excl
         split: prod.splits)
qed

text \<open>
  What \<open>getPerfEventParanoid\<close> makes of a file that holds no number, when \<^verbatim>\<open>errno\<close> is 0: the
  level 0. A file that holds \<open>-1\<close> gives the level -1.
\<close>

lemma level_of_other_content:
  "getPerfEventParanoid (synthetic_os (Some ''ab'') cap) = Some 0"
  "getPerfEventParanoid (synthetic_os (Some ''-1'') cap) = Some (-1)"
  "getPerfEventParanoid (synthetic_os (Some []) cap) = Some 0"
  by (simp_all add: synthetic_os_def libc_defs)

text \<open>
  C4. The policy does not hold for every configured level, because of line 115: the test
  \<^verbatim>\<open>value == 0 && errno != 0\<close> reads an \<^verbatim>\<open>errno\<close> that the function never clears. On the
  program's catalog, with the file holding the level 0 (the most permissive but one), the
  capability held, and \<^verbatim>\<open>errno\<close> left at 2 by an earlier call of the thread,
  \<open>getPerfEventParanoid\<close> returns false and \<open>initializeThreadLocalEvents\<close> refuses collection:
  it opens nothing and logs that perf events are unsupported. With the same file and
  \<^verbatim>\<open>errno\<close> at 0, the level is read as 0 and collection proceeds.
\<close>

theorem level_zero_refused_on_stale_errno:
  "getPerfEventParanoid ((synthetic_os (Some ''0'') True)\<lparr>errno := 2\<rparr>) = None \<and>
   initializeThreadLocalEvents raw_events_info ((synthetic_os (Some ''0'') True)\<lparr>errno := 2\<rparr>) 7
     (thread_start raw_events_info False False (\<lambda>c. replicate 18 0)) =
     (False, (thread_start raw_events_info False False (\<lambda>c. replicate 18 0))
        \<lparr>perf_unavailability_logged := True,
         log_lines := [LOG_INFO PerfEventsCounters PerfEventsAreUnsupported],
         os_calls := [ReadPerfEventParanoid]\<rparr>) \<and>
   getPerfEventParanoid (synthetic_os (Some ''0'') True) = Some 0 \<and>
   fst (initializeThreadLocalEvents raw_events_info (synthetic_os (Some ''0'') True) 7
     (thread_start raw_events_info False False (\<lambda>c. replicate 18 0)))"
proof -
  let ?st = "thread_start raw_events_info False False (\<lambda>c. replicate 18 0)"
  have stale: "getPerfEventParanoid ((synthetic_os (Some ''0'') True)\<lparr>errno := 2\<rparr>) = None"
    by (simp add: synthetic_os_def libc_defs)
  have refused: "initializeThreadLocalEvents raw_events_info
      ((synthetic_os (Some ''0'') True)\<lparr>errno := 2\<rparr>) 7 ?st =
     (False, ?st\<lparr>perf_unavailability_logged := True,
         log_lines := [LOG_INFO PerfEventsCounters PerfEventsAreUnsupported],
         os_calls := [ReadPerfEventParanoid]\<rparr>)"
    by (simp add: initializeThreadLocalEvents_def stale thread_start_def
        log_unavailability_once_def compare_exchange_strong_def called_def emit_def)
  have clean: "getPerfEventParanoid (synthetic_os (Some ''0'') True) = Some 0"
    by (rule synthetic_os_level)
  have closed: "\<not> thread_events_descriptors_opened ?st"
    by (simp add: thread_start_def)
  have proceeds: "fst (initializeThreadLocalEvents raw_events_info (synthetic_os (Some ''0'') True) 7 ?st)"
    using policy_on_parsed_level [OF closed clean, of raw_events_info 7] by simp
  show ?thesis
    using stale refused clean proceeds by blast
qed

subsection \<open>finalizeProfileEvents on a session that is not active\<close>

text \<open>
  C1, as the code has it. \<open>finalizeProfileEvents\<close> on a session that is not the thread's
  active one returns at once: the sink receives no increment and the state is unchanged.
  That is the case, in particular, after an \<open>initializeProfileEvents\<close> of the session that
  failed to open the descriptors on an idle thread: collection never started, and nothing
  is reported.
\<close>

theorem finalize_requires_active_session:
  "(current_thread_counters st \<noteq> Some c \<longrightarrow>
      finalizeProfileEvents cat env c profile_events st = Inr (profile_events, st)) \<and>
   (current_thread_counters st = None \<and> \<not> fst (initializeThreadLocalEvents cat env c st) \<longrightarrow>
      finalizeProfileEvents cat env' c profile_events (initializeProfileEvents cat env c st) =
        Inr (profile_events, initializeProfileEvents cat env c st))"
proof -
  have "current_thread_counters (initializeProfileEvents cat env c st) = None"
    if "current_thread_counters st = None" "\<not> fst (initializeThreadLocalEvents cat env c st)"
    using that initializeThreadLocalEvents_current [of cat env c st]
    by (cases "initializeThreadLocalEvents cat env c st") (simp add: initializeProfileEvents_def)
  then show ?thesis
    by (simp add: finalizeProfileEvents_def)
qed

text \<open>
  The claim C1 as stated fails: with the configuration unreadable, \<open>initializeProfileEvents\<close>
  fails, and the \<open>finalizeProfileEvents\<close> that follows reports nothing, not even zeros: the
  sink is still empty.
\<close>

theorem finalize_without_collection:
  "finalizeProfileEvents raw_events_info (synthetic_os None False) 7 []
     (initializeProfileEvents raw_events_info (synthetic_os None False) 7
        (thread_start raw_events_info False False (\<lambda>c. replicate 18 0))) =
   Inr ([], (thread_start raw_events_info False False (\<lambda>c. replicate 18 0))
        \<lparr>perf_unavailability_logged := True,
         log_lines := [LOG_INFO PerfEventsCounters PerfEventsAreUnsupported],
         os_calls := [ReadPerfEventParanoid]\<rparr>)"
  by (simp add: run_defs)

theorem finalize_requires_active_session_witness:
  "current_thread_counters (thread_start two_events False False (\<lambda>c. [0, 0])) \<noteq> Some 7 \<and>
   finalizeProfileEvents two_events (synthetic_os (Some ''1'') False) 7 []
     (thread_start two_events False False (\<lambda>c. [0, 0])) =
     Inr ([], thread_start two_events False False (\<lambda>c. [0, 0])) \<and>
   current_thread_counters (thread_start two_events False False (\<lambda>c. [0, 0])) = None \<and>
   \<not> fst (initializeThreadLocalEvents two_events (synthetic_os (Some ''3'') False) 7
      (thread_start two_events False False (\<lambda>c. [0, 0]))) \<and>
   finalizeProfileEvents two_events (synthetic_os (Some ''1'') False) 7 []
     (initializeProfileEvents two_events (synthetic_os (Some ''3'') False) 7
        (thread_start two_events False False (\<lambda>c. [0, 0]))) =
     Inr ([], initializeProfileEvents two_events (synthetic_os (Some ''3'') False) 7
        (thread_start two_events False False (\<lambda>c. [0, 0])))"
proof -
  let ?st = "thread_start two_events False False (\<lambda>c. [0, 0])"
  have idle: "current_thread_counters ?st = None"
    by (simp add: thread_start_def)
  have failed: "\<not> fst (initializeThreadLocalEvents two_events (synthetic_os (Some ''3'') False) 7 ?st)"
    by (simp add: run_defs)
  show ?thesis
    using finalize_requires_active_session [where st = ?st and c = 7 and cat = two_events
            and env = "synthetic_os (Some ''3'') False" and env' = "synthetic_os (Some ''1'') False"
            and profile_events = "[]"]
          finalize_requires_active_session [where st = ?st and c = 7 and cat = two_events
            and env = "synthetic_os (Some ''1'') False" and profile_events = "[]"]
          idle failed
    by simp
qed

subsection \<open>finalizeProfileEvents on the active session\<close>

lemma read_event_fields:
  "current_thread_counters (read_event env c i st) = current_thread_counters st"
  "thread_events_descriptors_opened (read_event env c i st) = thread_events_descriptors_opened st"
  "descriptors (read_event env c i st) = descriptors st"
  "raw_event_values (read_event env c i st) =
     (if descriptors st ! i = -1 then raw_event_values st
      else (raw_event_values st)(c := (raw_event_values st c)[i := counted env (descriptors st ! i)]))"
  by (auto simp: read_event_def counted_def Let_def called_fields emit_fields split: option.splits)

lemma read_loop_fields:
  "current_thread_counters (fold (read_event env c) [0 ..< n] st) = current_thread_counters st"
  "thread_events_descriptors_opened (fold (read_event env c) [0 ..< n] st) =
     thread_events_descriptors_opened st"
  "descriptors (fold (read_event env c) [0 ..< n] st) = descriptors st"
  by (induction n) (simp_all add: read_event_fields)

lemma read_loop_length:
  "length (raw_event_values (fold (read_event env c) [0 ..< n] st) c') =
     length (raw_event_values st c')"
  by (induction n) (auto simp: read_event_fields)

lemma read_loop_nth:
  "i < length (raw_event_values st c) \<Longrightarrow>
   raw_event_values (fold (read_event env c) [0 ..< n] st) c ! i =
     (if i < n \<and> descriptors st ! i \<noteq> -1 then counted env (descriptors st ! i)
      else raw_event_values st c ! i)"
proof (induction n)
  case 0
  then show ?case by simp
next
  case (Suc n)
  then show ?case
    by (auto simp: read_event_fields read_loop_fields read_loop_length nth_list_update less_Suc_eq)
qed

lemma read_loop_values:
  "raw_event_values (fold (read_event env c) [0 ..< n] st) c =
     map (\<lambda>i. if i < n \<and> descriptors st ! i \<noteq> -1 then counted env (descriptors st ! i)
               else raw_event_values st c ! i) [0 ..< length (raw_event_values st c)]"
  by (rule nth_equalityI) (simp_all add: read_loop_length read_loop_nth)

lemma report_event_fields:
  "fst (report_event cat env c i p) =
     fst p @ (if descriptors (snd p) ! i = -1 then []
              else [(profile_event (cat ! i), raw_event_values (snd p) c ! i)])"
  "current_thread_counters (snd (report_event cat env c i p)) = current_thread_counters (snd p)"
  "thread_events_descriptors_opened (snd (report_event cat env c i p)) =
     thread_events_descriptors_opened (snd p)"
  "descriptors (snd (report_event cat env c i p)) = descriptors (snd p)"
  "raw_event_values (snd (report_event cat env c i p)) = raw_event_values (snd p)"
  by (simp_all add: report_event_def increment_def Let_def called_fields emit_fields split_beta)

lemma report_loop_fields:
  "fst (fold (report_event cat env c) [0 ..< n] p) =
     fst p @ map (\<lambda>i. (profile_event (cat ! i), raw_event_values (snd p) c ! i))
               (filter (\<lambda>i. descriptors (snd p) ! i \<noteq> -1) [0 ..< n])"
  "current_thread_counters (snd (fold (report_event cat env c) [0 ..< n] p)) =
     current_thread_counters (snd p)"
  "thread_events_descriptors_opened (snd (fold (report_event cat env c) [0 ..< n] p)) =
     thread_events_descriptors_opened (snd p)"
  "descriptors (snd (fold (report_event cat env c) [0 ..< n] p)) = descriptors (snd p)"
  "raw_event_values (snd (fold (report_event cat env c) [0 ..< n] p)) = raw_event_values (snd p)"
  by (induction n) (simp_all add: report_event_fields)

lemma counters_getRawValue_fields:
  "fst (counters_getRawValue cat c ty cfg st) = fst (getRawValue cat (raw_event_values st c) ty cfg)"
  "current_thread_counters (snd (counters_getRawValue cat c ty cfg st)) = current_thread_counters st"
  "thread_events_descriptors_opened (snd (counters_getRawValue cat c ty cfg st)) =
     thread_events_descriptors_opened st"
  "descriptors (snd (counters_getRawValue cat c ty cfg st)) = descriptors st"
  "raw_event_values (snd (counters_getRawValue cat c ty cfg st)) = raw_event_values st"
  by (simp_all add: counters_getRawValue_def split_beta)

lemma instructions_per_total:
  "\<exists>st'. instructions_per cat c cycles st =
      Inr (ratio_or_zero
             (fst (getRawValue cat (raw_event_values st c) PERF_TYPE_HARDWARE
                     PERF_COUNT_HW_INSTRUCTIONS)) cycles, st') \<and>
    current_thread_counters st' = current_thread_counters st \<and>
    thread_events_descriptors_opened st' = thread_events_descriptors_opened st \<and>
    descriptors st' = descriptors st \<and>
    raw_event_values st' = raw_event_values st"
  by (cases "counters_getRawValue cat c PERF_TYPE_HARDWARE PERF_COUNT_HW_INSTRUCTIONS st")
     (use counters_getRawValue_fields [of cat c PERF_TYPE_HARDWARE PERF_COUNT_HW_INSTRUCTIONS st]
      in \<open>auto simp: instructions_per_def ratio_or_zero_def udiv_def\<close>)

lemma finalize_active:
  assumes "current_thread_counters st = Some c" and "thread_events_descriptors_opened st"
  shows "\<exists>st'. finalizeProfileEvents cat env c profile_events st =
      Inr (profile_events @
           raw_increments cat (descriptors st)
             (raw_event_values (fold (read_event env c) [0 ..< length cat] st) c) @
           [(PE_PERF_CUSTOM_INSTRUCTIONS_PER_CPU_CYCLE_SCALED,
             ratio_or_zero
               (fst (getRawValue cat (raw_event_values (fold (read_event env c) [0 ..< length cat] st) c)
                  PERF_TYPE_HARDWARE PERF_COUNT_HW_INSTRUCTIONS))
               (fst (getRawValue cat (raw_event_values (fold (read_event env c) [0 ..< length cat] st) c)
                  PERF_TYPE_HARDWARE PERF_COUNT_HW_CPU_CYCLES))),
            (PE_PERF_CUSTOM_INSTRUCTIONS_PER_CPU_CYCLE,
             ratio_or_zero
               (fst (getRawValue cat (raw_event_values (fold (read_event env c) [0 ..< length cat] st) c)
                  PERF_TYPE_HARDWARE PERF_COUNT_HW_INSTRUCTIONS))
               (fst (getRawValue cat (raw_event_values (fold (read_event env c) [0 ..< length cat] st) c)
                  PERF_TYPE_HARDWARE PERF_COUNT_HW_REF_CPU_CYCLES)))],
           st') \<and>
    current_thread_counters st' = None \<and>
    thread_events_descriptors_opened st' \<and>
    descriptors st' = descriptors st \<and>
    raw_event_values st' = raw_event_values (fold (read_event env c) [0 ..< length cat] st)"
proof -
  let ?st1 = "fold (read_event env c) [0 ..< length cat] st"
  let ?V = "raw_event_values ?st1 c"
  obtain pe1 st2 where loop: "fold (report_event cat env c) [0 ..< length cat] (profile_events, ?st1) = (pe1, st2)"
    by (cases "fold (report_event cat env c) [0 ..< length cat] (profile_events, ?st1)")
  have pe1: "pe1 = profile_events @ raw_increments cat (descriptors st) ?V"
    using report_loop_fields(1) [of cat env c "length cat" "(profile_events, ?st1)"]
    by (simp add: loop raw_increments_def read_loop_fields)
  have st2: "current_thread_counters st2 = Some c" "thread_events_descriptors_opened st2"
      "descriptors st2 = descriptors st" "raw_event_values st2 = raw_event_values ?st1"
    using report_loop_fields(2-5) [of cat env c "length cat" "(profile_events, ?st1)"] assms
    by (simp_all add: loop read_loop_fields)
  obtain cyc st3 where g1: "counters_getRawValue cat c PERF_TYPE_HARDWARE PERF_COUNT_HW_CPU_CYCLES st2 = (cyc, st3)"
    by (cases "counters_getRawValue cat c PERF_TYPE_HARDWARE PERF_COUNT_HW_CPU_CYCLES st2")
  have cyc: "cyc = fst (getRawValue cat ?V PERF_TYPE_HARDWARE PERF_COUNT_HW_CPU_CYCLES)"
    and st3: "thread_events_descriptors_opened st3" "descriptors st3 = descriptors st"
      "raw_event_values st3 = raw_event_values ?st1"
    using counters_getRawValue_fields [of cat c PERF_TYPE_HARDWARE PERF_COUNT_HW_CPU_CYCLES st2] st2
    by (simp_all add: g1)
  obtain ref st4 where g2: "counters_getRawValue cat c PERF_TYPE_HARDWARE PERF_COUNT_HW_REF_CPU_CYCLES st3 = (ref, st4)"
    by (cases "counters_getRawValue cat c PERF_TYPE_HARDWARE PERF_COUNT_HW_REF_CPU_CYCLES st3")
  have ref: "ref = fst (getRawValue cat ?V PERF_TYPE_HARDWARE PERF_COUNT_HW_REF_CPU_CYCLES)"
    and st4: "thread_events_descriptors_opened st4" "descriptors st4 = descriptors st"
      "raw_event_values st4 = raw_event_values ?st1"
    using counters_getRawValue_fields [of cat c PERF_TYPE_HARDWARE PERF_COUNT_HW_REF_CPU_CYCLES st3] st3
    by (simp_all add: g2)
  obtain st5 where i1: "instructions_per cat c cyc st4 =
      Inr (ratio_or_zero (fst (getRawValue cat ?V PERF_TYPE_HARDWARE PERF_COUNT_HW_INSTRUCTIONS)) cyc, st5)"
    and st5: "thread_events_descriptors_opened st5" "descriptors st5 = descriptors st"
      "raw_event_values st5 = raw_event_values ?st1"
    using instructions_per_total [of cat c cyc st4] st4 by auto
  obtain st6 where i2: "instructions_per cat c ref st5 =
      Inr (ratio_or_zero (fst (getRawValue cat ?V PERF_TYPE_HARDWARE PERF_COUNT_HW_INSTRUCTIONS)) ref, st6)"
    and st6: "thread_events_descriptors_opened st6" "descriptors st6 = descriptors st"
      "raw_event_values st6 = raw_event_values ?st1"
    using instructions_per_total [of cat c ref st5] st5 by auto
  have "finalizeProfileEvents cat env c profile_events st =
      Inr (pe1 @ [(PE_PERF_CUSTOM_INSTRUCTIONS_PER_CPU_CYCLE_SCALED,
                   ratio_or_zero (fst (getRawValue cat ?V PERF_TYPE_HARDWARE PERF_COUNT_HW_INSTRUCTIONS)) cyc),
                  (PE_PERF_CUSTOM_INSTRUCTIONS_PER_CPU_CYCLE,
                   ratio_or_zero (fst (getRawValue cat ?V PERF_TYPE_HARDWARE PERF_COUNT_HW_INSTRUCTIONS)) ref)],
           st6\<lparr>current_thread_counters := None\<rparr>)"
    using assms
    by (simp add: finalizeProfileEvents_def increment_def NUMBER_OF_RAW_EVENTS_def loop g1 g2 i1 i2)
  then show ?thesis
    using st6 by (simp add: pe1 cyc ref)
qed


lemma raw_events_info_lookup:
  "getRawValue raw_events_info vals PERF_TYPE_HARDWARE PERF_COUNT_HW_CPU_CYCLES = (vals ! 0, [])"
  "getRawValue raw_events_info vals PERF_TYPE_HARDWARE PERF_COUNT_HW_INSTRUCTIONS = (vals ! 1, [])"
  "getRawValue raw_events_info vals PERF_TYPE_HARDWARE PERF_COUNT_HW_REF_CPU_CYCLES = (vals ! 9, [])"
  by (simp_all add: getRawValue_def getRawValue_from.simps NUMBER_OF_RAW_EVENTS_def catalog_defs
      eval_nat_numeral)

text \<open>
  C3. On the program's catalog, \<open>finalizeProfileEvents\<close> of the active session returns
  without a fault, and the last two increments it forwards are the derived ratios. With
  \<open>V\<close> the session's array after the reads (index 0 is \<^verbatim>\<open>cpu_cycles\<close>, 1 is
  \<^verbatim>\<open>instructions\<close>, 9 is \<^verbatim>\<open>ref_cpu_cycles\<close>; these are the values forwarded for the raw events
  whose descriptors are open): the scaled ratio is the truncating division \<open>V ! 1 div V ! 0\<close>
  when \<open>V ! 0 \<noteq> 0\<close> and 0 when \<open>V ! 0 = 0\<close>; the unscaled one is \<open>V ! 1 div V ! 9\<close> when
  \<open>V ! 9 \<noteq> 0\<close> and 0 otherwise.
\<close>

theorem derived_ratios:
  assumes "current_thread_counters st = Some c" and "thread_events_descriptors_opened st"
  shows "\<exists>st'. finalizeProfileEvents raw_events_info env c profile_events st =
      Inr (profile_events @
           raw_increments raw_events_info (descriptors st) (raw_event_values st' c) @
           [(PE_PERF_CUSTOM_INSTRUCTIONS_PER_CPU_CYCLE_SCALED,
             if raw_event_values st' c ! 0 \<noteq> 0
             then raw_event_values st' c ! 1 div raw_event_values st' c ! 0 else 0),
            (PE_PERF_CUSTOM_INSTRUCTIONS_PER_CPU_CYCLE,
             if raw_event_values st' c ! 9 \<noteq> 0
             then raw_event_values st' c ! 1 div raw_event_values st' c ! 9 else 0)],
           st') \<and>
    profile_event (raw_events_info ! 0) = PE_PERF_COUNT_HW_CPU_CYCLES \<and>
    profile_event (raw_events_info ! 1) = PE_PERF_COUNT_HW_INSTRUCTIONS \<and>
    profile_event (raw_events_info ! 9) = PE_PERF_COUNT_HW_REF_CPU_CYCLES"
proof -
  obtain st' where "finalizeProfileEvents raw_events_info env c profile_events st =
      Inr (profile_events @
           raw_increments raw_events_info (descriptors st)
             (raw_event_values (fold (read_event env c) [0 ..< length raw_events_info] st) c) @
           [(PE_PERF_CUSTOM_INSTRUCTIONS_PER_CPU_CYCLE_SCALED,
             ratio_or_zero
               (raw_event_values (fold (read_event env c) [0 ..< length raw_events_info] st) c ! 1)
               (raw_event_values (fold (read_event env c) [0 ..< length raw_events_info] st) c ! 0)),
            (PE_PERF_CUSTOM_INSTRUCTIONS_PER_CPU_CYCLE,
             ratio_or_zero
               (raw_event_values (fold (read_event env c) [0 ..< length raw_events_info] st) c ! 1)
               (raw_event_values (fold (read_event env c) [0 ..< length raw_events_info] st) c ! 9))],
           st')"
    and "raw_event_values st' =
           raw_event_values (fold (read_event env c) [0 ..< length raw_events_info] st)"
    using finalize_active [OF assms, of raw_events_info env profile_events]
    by (auto simp: raw_events_info_lookup)
  then have "finalizeProfileEvents raw_events_info env c profile_events st =
      Inr (profile_events @
           raw_increments raw_events_info (descriptors st) (raw_event_values st' c) @
           [(PE_PERF_CUSTOM_INSTRUCTIONS_PER_CPU_CYCLE_SCALED,
             if raw_event_values st' c ! 0 \<noteq> 0
             then raw_event_values st' c ! 1 div raw_event_values st' c ! 0 else 0),
            (PE_PERF_CUSTOM_INSTRUCTIONS_PER_CPU_CYCLE,
             if raw_event_values st' c ! 9 \<noteq> 0
             then raw_event_values st' c ! 1 div raw_event_values st' c ! 9 else 0)],
           st')"
    by (simp add: ratio_or_zero_def)
  moreover have "profile_event (raw_events_info ! 0) = PE_PERF_COUNT_HW_CPU_CYCLES"
    "profile_event (raw_events_info ! 1) = PE_PERF_COUNT_HW_INSTRUCTIONS"
    "profile_event (raw_events_info ! 9) = PE_PERF_COUNT_HW_REF_CPU_CYCLES"
    by (simp_all add: catalog_defs)
  ultimately show ?thesis by blast
qed

theorem derived_ratios_witness:
  "current_thread_counters measured_thread = Some 7 \<and>
   thread_events_descriptors_opened measured_thread \<and>
   finalizeProfileEvents raw_events_info (synthetic_os (Some ''1'') False) 7 [] measured_thread =
     Inr ([(PE_PERF_COUNT_HW_CPU_CYCLES, 500), (PE_PERF_COUNT_HW_INSTRUCTIONS, 1000),
           (PE_PERF_COUNT_HW_REF_CPU_CYCLES, 0),
           (PE_PERF_CUSTOM_INSTRUCTIONS_PER_CPU_CYCLE_SCALED, 2),
           (PE_PERF_CUSTOM_INSTRUCTIONS_PER_CPU_CYCLE, 0)],
          measured_thread
            \<lparr>current_thread_counters := None,
             raw_event_values := (raw_event_values measured_thread)
               (7 := [500, 1000, 0, 0, 0, 0, 0, 0, 0, 0, 0, 0, 0, 0, 0, 0, 0, 0]),
             log_lines := [LOG_WARNING PerfEventsCounters (CantReadEventValue 5)],
             os_calls := [ReadCounter 4, ReadCounter 3, ReadCounter 5,
                          IoctlDisable 4, IoctlReset 4, IoctlDisable 3, IoctlReset 3,
                          IoctlDisable 5, IoctlReset 5]\<rparr>)"
proof -
  let ?env = "synthetic_os (Some ''1'') False"
  have active: "current_thread_counters measured_thread = Some 7"
    and opened: "thread_events_descriptors_opened measured_thread"
    by (simp_all add: measured_thread_def)
  have counted: "finalizeProfileEvents raw_events_info ?env 7 [] measured_thread =
     Inr ([(PE_PERF_COUNT_HW_CPU_CYCLES, 500), (PE_PERF_COUNT_HW_INSTRUCTIONS, 1000),
           (PE_PERF_COUNT_HW_REF_CPU_CYCLES, 0),
           (PE_PERF_CUSTOM_INSTRUCTIONS_PER_CPU_CYCLE_SCALED, 2),
           (PE_PERF_CUSTOM_INSTRUCTIONS_PER_CPU_CYCLE, 0)],
          measured_thread
            \<lparr>current_thread_counters := None,
             raw_event_values := (raw_event_values measured_thread)
               (7 := [500, 1000, 0, 0, 0, 0, 0, 0, 0, 0, 0, 0, 0, 0, 0, 0, 0, 0]),
             log_lines := [LOG_WARNING PerfEventsCounters (CantReadEventValue 5)],
             os_calls := [ReadCounter 4, ReadCounter 3, ReadCounter 5,
                          IoctlDisable 4, IoctlReset 4, IoctlDisable 3, IoctlReset 3,
                          IoctlDisable 5, IoctlReset 5]\<rparr>)"
    by (simp add: measured_thread_def run_defs catalog_defs fun_eq_iff)
  show ?thesis
    using derived_ratios [OF active opened, of ?env "[]"] active opened counted
    by blast
qed

subsection \<open>A region with nothing in it\<close>

lemma enable_loop_fields:
  "current_thread_counters (fold enable_event ds st) = current_thread_counters st"
  "thread_events_descriptors_opened (fold enable_event ds st) = thread_events_descriptors_opened st"
  "descriptors (fold enable_event ds st) = descriptors st"
  "raw_event_values (fold enable_event ds st) = raw_event_values st"
  by (induction ds arbitrary: st) (simp_all add: enable_event_def called_fields)

lemma initialize_armed:
  assumes "current_thread_counters st = None"
    and "current_thread_counters (initializeProfileEvents cat env c st) = Some c"
  shows "thread_events_descriptors_opened (initializeProfileEvents cat env c st)"
    and "raw_event_values (initializeProfileEvents cat env c st) c =
           replicate (length (raw_event_values st c)) 0"
proof -
  obtain ok st1 where tle: "initializeThreadLocalEvents cat env c st = (ok, st1)"
    by (cases "initializeThreadLocalEvents cat env c st")
  have cur: "current_thread_counters st1 = None"
    using initializeThreadLocalEvents_current [of cat env c st] assms(1) by (simp add: tle)
  have ok: ok
    using assms cur by (auto simp: initializeProfileEvents_def tle split: if_splits)
  have opened: "thread_events_descriptors_opened st1"
    using initializeThreadLocalEvents_result [of cat env c st] ok by (simp add: tle)
  have len: "length (raw_event_values st1 c) = length (raw_event_values st c)"
    using initializeThreadLocalEvents_lengths(2) [of cat env c st c] by (simp add: tle)
  show "thread_events_descriptors_opened (initializeProfileEvents cat env c st)"
    using assms(1) ok opened
    by (simp add: initializeProfileEvents_def tle Let_def enable_loop_fields)
  show "raw_event_values (initializeProfileEvents cat env c st) c =
           replicate (length (raw_event_values st c)) 0"
    using assms(1) ok len
    by (simp add: initializeProfileEvents_def tle Let_def enable_loop_fields map_replicate_const)
qed

lemma injected_counts_after_read:
  assumes "raw_event_values st c = replicate (length cat) 0"
  shows "raw_event_values (fold (read_event env c) [0 ..< length cat] st) c =
           injected_counts cat env (descriptors st)"
  unfolding read_loop_values [of env c "length cat" st] injected_counts_def
  by (simp add: assms)

text \<open>
  C7, as the code has it. When \<open>initializeProfileEvents\<close> of a session on an idle thread is
  followed at once by \<open>finalizeProfileEvents\<close> of the same session, the sink receives, after
  what it held: for each index of the catalog whose descriptor is open, in order, the
  metric of the entry with the count read from the descriptor (zero when the read fails);
  then the two derived ratios, computed from those counts; and nothing else.
\<close>

theorem noop_region_reports_counts:
  assumes "current_thread_counters st = None"
    and "length (raw_event_values st c) = length cat"
    and "current_thread_counters (initializeProfileEvents cat env c st) = Some c"
  shows "\<exists>st'. finalizeProfileEvents cat env' c profile_events (initializeProfileEvents cat env c st) =
      Inr (profile_events @
           raw_increments cat (descriptors (initializeProfileEvents cat env c st))
             (injected_counts cat env' (descriptors (initializeProfileEvents cat env c st))) @
           [(PE_PERF_CUSTOM_INSTRUCTIONS_PER_CPU_CYCLE_SCALED,
             ratio_or_zero
               (fst (getRawValue cat
                  (injected_counts cat env' (descriptors (initializeProfileEvents cat env c st)))
                  PERF_TYPE_HARDWARE PERF_COUNT_HW_INSTRUCTIONS))
               (fst (getRawValue cat
                  (injected_counts cat env' (descriptors (initializeProfileEvents cat env c st)))
                  PERF_TYPE_HARDWARE PERF_COUNT_HW_CPU_CYCLES))),
            (PE_PERF_CUSTOM_INSTRUCTIONS_PER_CPU_CYCLE,
             ratio_or_zero
               (fst (getRawValue cat
                  (injected_counts cat env' (descriptors (initializeProfileEvents cat env c st)))
                  PERF_TYPE_HARDWARE PERF_COUNT_HW_INSTRUCTIONS))
               (fst (getRawValue cat
                  (injected_counts cat env' (descriptors (initializeProfileEvents cat env c st)))
                  PERF_TYPE_HARDWARE PERF_COUNT_HW_REF_CPU_CYCLES)))],
           st')"
proof -
  let ?st1 = "initializeProfileEvents cat env c st"
  have opened: "thread_events_descriptors_opened ?st1"
    by (rule initialize_armed(1) [OF assms(1,3)])
  have zero: "raw_event_values ?st1 c = replicate (length cat) 0"
    using initialize_armed(2) [OF assms(1,3)] assms(2) by simp
  show ?thesis
    using finalize_active [OF assms(3) opened, of cat env' profile_events]
    unfolding injected_counts_after_read [OF zero]
    by blast
qed

lemma raw_increments_two:
  "raw_increments two_events [3, 4] vals =
     [(PE_PERF_COUNT_HW_CPU_CYCLES, vals ! 0), (PE_PERF_COUNT_HW_INSTRUCTIONS, vals ! 1)]"
  by (simp add: raw_increments_def catalog_defs upt_rec)

theorem noop_region_reports_counts_witness:
  "current_thread_counters (thread_start two_events False False (\<lambda>c. [0, 0])) = None \<and>
   length ((\<lambda>c. [0::UInt64, 0]) (7::nat)) = length two_events \<and>
   current_thread_counters
     (initializeProfileEvents two_events (synthetic_os (Some ''1'') False) 7
        (thread_start two_events False False (\<lambda>c. [0, 0]))) = Some 7 \<and>
   (\<exists>st'. finalizeProfileEvents two_events (synthetic_os (Some ''1'') False) 7 []
      (initializeProfileEvents two_events (synthetic_os (Some ''1'') False) 7
         (thread_start two_events False False (\<lambda>c. [0, 0]))) =
     Inr ([(PE_PERF_COUNT_HW_CPU_CYCLES, 1000), (PE_PERF_COUNT_HW_INSTRUCTIONS, 500),
           (PE_PERF_CUSTOM_INSTRUCTIONS_PER_CPU_CYCLE_SCALED, 0),
           (PE_PERF_CUSTOM_INSTRUCTIONS_PER_CPU_CYCLE, 0)], st'))"
proof -
  let ?st = "thread_start two_events False False (\<lambda>c. [0, 0])"
  let ?env = "synthetic_os (Some ''1'') False"
  have idle: "current_thread_counters ?st = None"
    by (simp add: thread_start_def)
  have len: "length (raw_event_values ?st 7) = length two_events"
    by (simp add: thread_start_def two_events_def)
  have armed: "current_thread_counters (initializeProfileEvents two_events ?env 7 ?st) = Some 7"
    by (simp add: two_events_armed)
  have counts: "injected_counts two_events ?env [3, 4] = [1000, 500]"
    by (simp add: injected_counts_def counted_def synthetic_os_def two_events_def upt_rec)
  have lookups:
    "getRawValue two_events [1000, 500] PERF_TYPE_HARDWARE PERF_COUNT_HW_CPU_CYCLES = (1000, [])"
    "getRawValue two_events [1000, 500] PERF_TYPE_HARDWARE PERF_COUNT_HW_INSTRUCTIONS = (500, [])"
    "fst (getRawValue two_events [1000, 500] PERF_TYPE_HARDWARE PERF_COUNT_HW_REF_CPU_CYCLES) = 0"
    by (simp_all add: getRawValue_def getRawValue_from.simps NUMBER_OF_RAW_EVENTS_def catalog_defs)
  have len2: "length two_events = 2"
    by (simp add: two_events_def)
  show ?thesis
    using noop_region_reports_counts [OF idle len armed, of ?env "[]"] idle armed
    by (simp add: two_events_armed counts lookups raw_increments_two ratio_or_zero_def len2)
qed

text \<open>
  The claim C7 as stated fails on its scenario: with the catalog of \<^verbatim>\<open>cpu_cycles\<close> and
  \<^verbatim>\<open>instructions\<close> and the counts 1000 and 500, the sink receives four increments, not three;
  the fourth is the unscaled ratio, forwarded with the value 0.
\<close>

theorem noop_region_fourth_increment:
  "finalizeProfileEvents two_events (synthetic_os (Some ''1'') False) 7 []
     (initializeProfileEvents two_events (synthetic_os (Some ''1'') False) 7
        (thread_start two_events False False (\<lambda>c. [0, 0]))) =
   Inr ([(PE_PERF_COUNT_HW_CPU_CYCLES, 1000), (PE_PERF_COUNT_HW_INSTRUCTIONS, 500),
         (PE_PERF_CUSTOM_INSTRUCTIONS_PER_CPU_CYCLE_SCALED, 0),
         (PE_PERF_CUSTOM_INSTRUCTIONS_PER_CPU_CYCLE, 0)],
        \<lparr>descriptors = [3, 4],
         thread_events_descriptors_opened = True,
         current_thread_counters = None,
         perf_unavailability_logged = False,
         particular_events_unavailability_logged = True,
         raw_event_values = (\<lambda>c. [0, 0])(7 := [1000, 500]),
         log_lines = [LOG_WARNING PerfEventsCounters
                        (CantFindPerfEventInfo PERF_TYPE_HARDWARE PERF_COUNT_HW_REF_CPU_CYCLES)],
         os_calls = [ReadPerfEventParanoid, HasLinuxCapability, opens_disabled 0 0 False,
                     opens_disabled 0 1 False, IoctlEnable 3, IoctlEnable 4,
                     ReadCounter 3, ReadCounter 4,
                     IoctlDisable 3, IoctlReset 3, IoctlDisable 4, IoctlReset 4]\<rparr>)"
  unfolding two_events_armed
  by (simp add: run_defs catalog_defs fun_eq_iff)

subsection \<open>The active session and the descriptors\<close>

lemma initialize_keeps_invariant:
  "active_implies_opened st \<Longrightarrow> active_implies_opened (initializeProfileEvents cat env c st)"
proof (cases "current_thread_counters st")
  case None
  assume "active_implies_opened st"
  show ?thesis
  proof (cases "current_thread_counters (initializeProfileEvents cat env c st)")
    case None
    then show ?thesis by (simp add: active_implies_opened_def)
  next
    case (Some c')
    obtain ok st1 where tle: "initializeThreadLocalEvents cat env c st = (ok, st1)"
      by (cases "initializeThreadLocalEvents cat env c st")
    have "current_thread_counters st1 = None"
      using initializeThreadLocalEvents_current [of cat env c st] \<open>current_thread_counters st = None\<close>
      by (simp add: tle)
    then have "c' = c"
      using Some \<open>current_thread_counters st = None\<close>
      by (auto simp: initializeProfileEvents_def tle Let_def split: if_splits)
    then show ?thesis
      using initialize_armed(1) [of st cat env c] Some \<open>current_thread_counters st = None\<close>
      by (simp add: active_implies_opened_def)
  qed
next
  case (Some c')
  assume "active_implies_opened st"
  then show ?thesis
    using Some
    by (auto simp: initializeProfileEvents_def active_implies_opened_def emit_fields)
qed

lemma finalize_total:
  "\<exists>profile_events1 st1. finalizeProfileEvents cat env c profile_events st = Inr (profile_events1, st1) \<and>
     (active_implies_opened st \<longrightarrow> active_implies_opened st1)"
proof (cases "current_thread_counters st = Some c \<and> thread_events_descriptors_opened st")
  case True
  then show ?thesis
    using finalize_active [of st c cat env profile_events]
    by (auto simp: active_implies_opened_def)
next
  case False
  then show ?thesis
    by (auto simp: finalizeProfileEvents_def)
qed

lemma dtor_keeps_invariant:
  "active_implies_opened st \<Longrightarrow> active_implies_opened (PerfDescriptorsHolder_dtor env st)"
  by (simp add: active_implies_opened_def PerfDescriptorsHolder_dtor_def release_all_eq)

lemma run_call_total:
  "\<exists>st1. run_call cat k st = Inr st1 \<and> (active_implies_opened st \<longrightarrow> active_implies_opened st1)"
proof (cases k)
  case (Initialize env c)
  then show ?thesis by (simp add: initialize_keeps_invariant)
next
  case (Finalize env c profile_events)
  then show ?thesis
    using finalize_total [of cat env c profile_events st] by auto
next
  case (ThreadExit env)
  then show ?thesis by (simp add: dtor_keeps_invariant)
qed

lemma run_total:
  "\<exists>st1. run cat ks st = Inr st1 \<and> (active_implies_opened st \<longrightarrow> active_implies_opened st1)"
proof (induction ks arbitrary: st)
  case Nil
  then show ?case by simp
next
  case (Cons k ks)
  obtain st1 where k: "run_call cat k st = Inr st1"
    and inv1: "active_implies_opened st \<longrightarrow> active_implies_opened st1"
    using run_call_total [of cat k st] by blast
  obtain st2 where ks: "run cat ks st1 = Inr st2"
    and inv2: "active_implies_opened st1 \<longrightarrow> active_implies_opened st2"
    using Cons.IH [of st1] by blast
  show ?case
    using inv1 inv2 by (simp add: k ks)
qed

text \<open>
  C10. After any sequence of calls of \<open>initializeProfileEvents\<close>, \<open>finalizeProfileEvents\<close> and
  the holder's destructor on a thread, from the thread's start, for any sessions, sinks and
  answers of the operating system: if the active-session slot holds a session, the
  descriptors-opened flag is set. So \<open>finalizeProfileEvents\<close> of that session does not take
  the early return of line 209: it returns without a fault, appends its increments to the
  sink, the two derived ratios last, and clears the active-session slot.
\<close>

theorem active_session_has_descriptors:
  assumes "run cat calls (thread_start cat unavailability_logged particular_logged vals) = Inr st"
    and "current_thread_counters st = Some c"
  shows "thread_events_descriptors_opened st \<and>
    (\<exists>reported ipc_scaled ipc st'.
       finalizeProfileEvents cat env c profile_events st =
         Inr (profile_events @ reported @
              [(PE_PERF_CUSTOM_INSTRUCTIONS_PER_CPU_CYCLE_SCALED, ipc_scaled),
               (PE_PERF_CUSTOM_INSTRUCTIONS_PER_CPU_CYCLE, ipc)], st') \<and>
       current_thread_counters st' = None)"
proof -
  have "active_implies_opened (thread_start cat unavailability_logged particular_logged vals)"
    by (simp add: active_implies_opened_def thread_start_def)
  then have "active_implies_opened st"
    using run_total [of cat calls "thread_start cat unavailability_logged particular_logged vals"] assms(1)
    by auto
  then have opened: "thread_events_descriptors_opened st"
    using assms(2) by (simp add: active_implies_opened_def)
  show ?thesis
    using finalize_active [OF assms(2) opened, of cat env profile_events] opened
    by blast
qed



theorem active_session_has_descriptors_witness:
  "run two_events
     [Initialize (synthetic_os (Some ''3'') False) 8, Initialize (synthetic_os (Some ''1'') False) 7,
      Initialize (synthetic_os (Some ''1'') False) 8]
     (thread_start two_events False False (\<lambda>c. [0, 0])) =
     Inr \<lparr>descriptors = [3, 4],
          thread_events_descriptors_opened = True,
          current_thread_counters = Some 7,
          perf_unavailability_logged = True,
          particular_events_unavailability_logged = True,
          raw_event_values = (\<lambda>c. [0, 0]),
          log_lines = [LOG_INFO PerfEventsCounters NotEnoughPermissions,
                       LOG_WARNING PerfEventsCounters OnlyOneInstance],
          os_calls = [ReadPerfEventParanoid, HasLinuxCapability,
                      ReadPerfEventParanoid, HasLinuxCapability,
                      opens_disabled 0 0 False, opens_disabled 0 1 False,
                      IoctlEnable 3, IoctlEnable 4]\<rparr> \<and>
   (\<exists>reported ipc_scaled ipc st'.
      finalizeProfileEvents two_events (synthetic_os (Some ''1'') False) 7 []
        \<lparr>descriptors = [3, 4],
         thread_events_descriptors_opened = True,
         current_thread_counters = Some 7,
         perf_unavailability_logged = True,
         particular_events_unavailability_logged = True,
         raw_event_values = (\<lambda>c. [0, 0]),
         log_lines = [LOG_INFO PerfEventsCounters NotEnoughPermissions,
                      LOG_WARNING PerfEventsCounters OnlyOneInstance],
         os_calls = [ReadPerfEventParanoid, HasLinuxCapability,
                     ReadPerfEventParanoid, HasLinuxCapability,
                     opens_disabled 0 0 False, opens_disabled 0 1 False,
                     IoctlEnable 3, IoctlEnable 4]\<rparr> =
        Inr ([] @ reported @
             [(PE_PERF_CUSTOM_INSTRUCTIONS_PER_CPU_CYCLE_SCALED, ipc_scaled),
              (PE_PERF_CUSTOM_INSTRUCTIONS_PER_CPU_CYCLE, ipc)], st') \<and>
      current_thread_counters st' = None)"
proof -
  let ?st = "\<lparr>descriptors = [3, 4],
          thread_events_descriptors_opened = True,
          current_thread_counters = Some 7,
          perf_unavailability_logged = True,
          particular_events_unavailability_logged = True,
          raw_event_values = (\<lambda>c. [0, 0]),
          log_lines = [LOG_INFO PerfEventsCounters NotEnoughPermissions,
                       LOG_WARNING PerfEventsCounters OnlyOneInstance],
          os_calls = [ReadPerfEventParanoid, HasLinuxCapability,
                      ReadPerfEventParanoid, HasLinuxCapability,
                      opens_disabled 0 0 False, opens_disabled 0 1 False,
                      IoctlEnable 3, IoctlEnable 4]\<rparr>"
  have ran: "run two_events
     [Initialize (synthetic_os (Some ''3'') False) 8, Initialize (synthetic_os (Some ''1'') False) 7,
      Initialize (synthetic_os (Some ''1'') False) 8]
     (thread_start two_events False False (\<lambda>c. [0, 0])) = Inr ?st"
    by (simp add: run_defs catalog_defs fun_eq_iff)
  have active: "current_thread_counters ?st = Some 7"
    by simp
  show ?thesis
    using active_session_has_descriptors [OF ran active, of "synthetic_os (Some ''1'') False" "[]"] ran
    by blast
qed

subsection \<open>The descriptors are opened once\<close>

lemma initializeProfileEvents_opened:
  "thread_events_descriptors_opened st \<Longrightarrow>
   thread_events_descriptors_opened (initializeProfileEvents cat env c st)"
  by (auto simp: initializeProfileEvents_def initializeThreadLocalEvents_opened emit_fields
      enable_loop_fields Let_def)

lemma finalize_opened:
  "finalizeProfileEvents cat env c profile_events st = Inr (profile_events1, st1) \<Longrightarrow>
   thread_events_descriptors_opened st \<Longrightarrow> thread_events_descriptors_opened st1"
proof (cases "current_thread_counters st = Some c")
  case True
  assume "finalizeProfileEvents cat env c profile_events st = Inr (profile_events1, st1)"
    and "thread_events_descriptors_opened st"
  then show ?thesis
    using finalize_active [OF True, of cat env profile_events] by auto
next
  case False
  assume "finalizeProfileEvents cat env c profile_events st = Inr (profile_events1, st1)"
    and "thread_events_descriptors_opened st"
  then show ?thesis
    using False by (simp add: finalizeProfileEvents_def)
qed

lemma dtor_opened:
  "thread_events_descriptors_opened (PerfDescriptorsHolder_dtor env st) =
     thread_events_descriptors_opened st"
  by (simp add: PerfDescriptorsHolder_dtor_def release_all_eq)

lemma run_call_opened:
  "run_call cat k st = Inr st1 \<Longrightarrow> thread_events_descriptors_opened st \<Longrightarrow>
   thread_events_descriptors_opened st1"
proof (cases k)
  case (Initialize env c)
  assume "run_call cat k st = Inr st1" and "thread_events_descriptors_opened st"
  then show ?thesis
    using Initialize by (auto simp: initializeProfileEvents_opened)
next
  case (Finalize env c profile_events)
  assume "run_call cat k st = Inr st1" and "thread_events_descriptors_opened st"
  then show ?thesis
    using Finalize finalize_opened [of cat env c profile_events st]
    by (auto split: sum.splits)
next
  case (ThreadExit env)
  assume "run_call cat k st = Inr st1" and "thread_events_descriptors_opened st"
  then show ?thesis
    using ThreadExit by (auto simp: dtor_opened)
qed

lemma run_opened:
  "run cat ks st = Inr st1 \<Longrightarrow> thread_events_descriptors_opened st \<Longrightarrow>
   thread_events_descriptors_opened st1"
proof (induction ks arbitrary: st)
  case Nil
  then show ?case by simp
next
  case (Cons k ks)
  then obtain st2 where k: "run_call cat k st = Inr st2" and ks: "run cat ks st2 = Inr st1"
    by (auto split: sum.splits)
  show ?case
    using Cons.IH [OF ks] run_call_opened [OF k Cons.prems(2)] by simp
qed

text \<open>
  C2, as the code has it. Once a call of \<open>initializeThreadLocalEvents\<close> has succeeded on a
  thread, every later call on that thread, after any sequence of calls of
  \<open>initializeProfileEvents\<close>, \<open>finalizeProfileEvents\<close> and the destructor, for any session and
  whatever the operating system would answer, returns true at once and leaves the whole
  state as it is: no probe, no descriptor opened, no line logged. A call that fails on a
  thread whose descriptors are not opened leaves them not opened, and the next call probes
  again: it makes the calls of a first use, reading the file and, according to what it
  reads, asking for the capability and opening the events. So does every call on a thread
  whose descriptors are not opened.
\<close>

theorem open_all_after_success:
  "(fst (initializeThreadLocalEvents cat env c st) \<and>
      run cat calls (snd (initializeThreadLocalEvents cat env c st)) = Inr st' \<longrightarrow>
        initializeThreadLocalEvents cat env' c' st' = (True, st')) \<and>
   (\<not> thread_events_descriptors_opened st \<and> \<not> fst (initializeThreadLocalEvents cat env c st) \<longrightarrow>
      \<not> thread_events_descriptors_opened (snd (initializeThreadLocalEvents cat env c st)) \<and>
      os_calls (snd (initializeThreadLocalEvents cat env' c'
                  (snd (initializeThreadLocalEvents cat env c st)))) =
        os_calls (snd (initializeThreadLocalEvents cat env c st)) @ first_use_calls cat env') \<and>
   (\<not> thread_events_descriptors_opened st'' \<longrightarrow>
      os_calls (snd (initializeThreadLocalEvents cat env' c' st'')) =
        os_calls st'' @ first_use_calls cat env')"
proof -
  have after: "initializeThreadLocalEvents cat env' c' st' = (True, st')"
    if "fst (initializeThreadLocalEvents cat env c st)"
      and "run cat calls (snd (initializeThreadLocalEvents cat env c st)) = Inr st'"
  proof -
    have "thread_events_descriptors_opened (snd (initializeThreadLocalEvents cat env c st))"
      using that(1) by (simp add: initializeThreadLocalEvents_result)
    then have "thread_events_descriptors_opened st'"
      by (rule run_opened [OF that(2)])
    then show ?thesis
      by (rule initializeThreadLocalEvents_opened)
  qed
  have still: "\<not> thread_events_descriptors_opened (snd (initializeThreadLocalEvents cat env c st))"
    if "\<not> thread_events_descriptors_opened st" "\<not> fst (initializeThreadLocalEvents cat env c st)"
    using that by (simp add: initializeThreadLocalEvents_result)
  show ?thesis
    using after still first_use_trace by blast
qed


theorem open_all_after_success_witness:
  "fst (initializeThreadLocalEvents two_events (synthetic_os (Some ''1'') False) 7
      (thread_start two_events False False (\<lambda>c. [0, 0]))) \<and>
   (\<exists>st'. run two_events
            [Initialize (synthetic_os (Some ''1'') False) 7,
             Finalize (synthetic_os (Some ''1'') False) 7 []]
            (snd (initializeThreadLocalEvents two_events (synthetic_os (Some ''1'') False) 7
               (thread_start two_events False False (\<lambda>c. [0, 0])))) = Inr st' \<and>
          initializeThreadLocalEvents two_events (synthetic_os None False) 8 st' = (True, st')) \<and>
   \<not> thread_events_descriptors_opened (thread_start two_events False False (\<lambda>c. [0, 0])) \<and>
   \<not> fst (initializeThreadLocalEvents two_events (synthetic_os None False) 7
      (thread_start two_events False False (\<lambda>c. [0, 0]))) \<and>
   \<not> thread_events_descriptors_opened
      (snd (initializeThreadLocalEvents two_events (synthetic_os None False) 7
        (thread_start two_events False False (\<lambda>c. [0, 0])))) \<and>
   os_calls (snd (initializeThreadLocalEvents two_events (synthetic_os (Some ''1'') False) 8
      (snd (initializeThreadLocalEvents two_events (synthetic_os None False) 7
        (thread_start two_events False False (\<lambda>c. [0, 0])))))) =
     [ReadPerfEventParanoid, ReadPerfEventParanoid, HasLinuxCapability,
      opens_disabled PERF_TYPE_HARDWARE PERF_COUNT_HW_CPU_CYCLES False,
      opens_disabled PERF_TYPE_HARDWARE PERF_COUNT_HW_INSTRUCTIONS False]"
proof -
  let ?st = "thread_start two_events False False (\<lambda>c. [0, 0])"
  let ?ok = "synthetic_os (Some ''1'') False"
  let ?bad = "synthetic_os None False"
  have ok: "fst (initializeThreadLocalEvents two_events ?ok 7 ?st)"
    by (simp add: run_defs)
  obtain st' where ran: "run two_events [Initialize ?ok 7, Finalize ?ok 7 []]
      (snd (initializeThreadLocalEvents two_events ?ok 7 ?st)) = Inr st'"
    using run_total by blast
  have closed: "\<not> thread_events_descriptors_opened ?st"
    by (simp add: thread_start_def)
  have failed: "\<not> fst (initializeThreadLocalEvents two_events ?bad 7 ?st)"
    by (simp add: run_defs)
  have first: "os_calls (snd (initializeThreadLocalEvents two_events ?bad 7 ?st)) =
      [ReadPerfEventParanoid]"
    by (simp add: run_defs)
  have calls: "first_use_calls two_events ?ok =
      [ReadPerfEventParanoid, HasLinuxCapability,
       opens_disabled PERF_TYPE_HARDWARE PERF_COUNT_HW_CPU_CYCLES False,
       opens_disabled PERF_TYPE_HARDWARE PERF_COUNT_HW_INSTRUCTIONS False]"
    by (simp add: first_use_calls_def synthetic_os_level synthetic_os_fields two_events_def
        hardwareEvent_def)
  have after: "initializeThreadLocalEvents two_events ?bad 8 st' = (True, st')"
    using open_all_after_success [of two_events ?ok 7 ?st "[Initialize ?ok 7, Finalize ?ok 7 []]"
        st' ?bad 8] ok ran
    by blast
  have retried: "\<not> thread_events_descriptors_opened
        (snd (initializeThreadLocalEvents two_events ?bad 7 ?st)) \<and>
      os_calls (snd (initializeThreadLocalEvents two_events ?ok 8
        (snd (initializeThreadLocalEvents two_events ?bad 7 ?st)))) =
      os_calls (snd (initializeThreadLocalEvents two_events ?bad 7 ?st)) @
        first_use_calls two_events ?ok"
    using open_all_after_success [of two_events ?bad 7 ?st _ _ ?ok 8] closed failed
    by blast
  show ?thesis
    using ok closed failed ran after retried
    by (simp add: first calls)
qed

text \<open>
  The claim C2 as stated fails: after a failed first attempt the second call does not
  return immediately. With the configuration unreadable it reads the configuration again;
  with the restriction level 3 and no capability it reads the configuration and checks the
  privilege again; and when the configuration has become readable it opens the descriptors.
\<close>

theorem open_all_retried_after_failure:
  "os_calls (snd (initializeThreadLocalEvents raw_events_info (synthetic_os None False) 7
     (thread_start raw_events_info False False (\<lambda>c. replicate 18 0)))) =
     [ReadPerfEventParanoid] \<and>
   os_calls (snd (initializeThreadLocalEvents raw_events_info (synthetic_os None False) 7
     (snd (initializeThreadLocalEvents raw_events_info (synthetic_os None False) 7
        (thread_start raw_events_info False False (\<lambda>c. replicate 18 0)))))) =
     [ReadPerfEventParanoid, ReadPerfEventParanoid] \<and>
   os_calls (snd (initializeThreadLocalEvents raw_events_info (synthetic_os (Some ''3'') False) 7
     (snd (initializeThreadLocalEvents raw_events_info (synthetic_os (Some ''3'') False) 7
        (thread_start raw_events_info False False (\<lambda>c. replicate 18 0)))))) =
     [ReadPerfEventParanoid, HasLinuxCapability, ReadPerfEventParanoid, HasLinuxCapability] \<and>
   initializeThreadLocalEvents two_events (synthetic_os (Some ''1'') False) 7
     (snd (initializeThreadLocalEvents two_events (synthetic_os None False) 7
        (thread_start two_events False False (\<lambda>c. [0, 0])))) =
     (True,
      \<lparr>descriptors = [3, 4],
       thread_events_descriptors_opened = True,
       current_thread_counters = None,
       perf_unavailability_logged = True,
       particular_events_unavailability_logged = True,
       raw_event_values = (\<lambda>c. [0, 0]),
       log_lines = [LOG_INFO PerfEventsCounters PerfEventsAreUnsupported],
       os_calls = [ReadPerfEventParanoid, ReadPerfEventParanoid, HasLinuxCapability,
                   opens_disabled 0 0 False, opens_disabled 0 1 False]\<rparr>)"
  by (simp add: run_defs catalog_defs fun_eq_iff)

subsection \<open>The unavailability line is logged once\<close>












end
